theory Spec2Isabelle
  imports Main
begin

section \<open>Data model of SecurityService.js\<close>

text \<open>
  The service works on five Keystone lists (Mongo collections): SecurityUser,
  SecurityToken, SecurityCheck, SecuritySignature and VerificationRequest. A document
  is a record with its \<open>_id\<close>; a collection is the list of its documents in insertion
  order, so that \<open>findOne\<close> is the first match. Every \<open>await\<close> runs to completion
  before the next statement: the model is sequential.
\<close>

type_synonym oid = nat

text \<open>
  What the methods can throw: a failed \<open>assert\<close>, \<open>new WebError(message, status)\<close>,
  the TypeError of JavaScript for a property read or method call on \<open>null\<close> or
  \<open>undefined\<close>, and a rejected \<open>message.send()\<close>.
\<close>

datatype error = AssertionError | WebError string nat | TypeError | SendError

record level2_contact =
  contact_email :: "string option"
  contact_phone :: "string option"

record security_user =
  user_id :: oid
  user_name :: string
  user_level2 :: "level2_contact option"

record security_signature =
  sig_id :: oid
  sig_user :: oid
  sig_type :: string
  sig_value :: string

record security_token =
  tok_id :: oid
  tok_user :: oid
  tok_purpose :: string
  tok_token :: string

record security_check =
  chk_id :: oid
  chk_user :: oid
  chk_type :: string
  chk_payload :: string
  chk_check :: string

record level1 =
  l1_userName :: string
  l1_birthDate :: string
  l1_avatar :: string
  l1_validationComment :: "string option"
  l1_isValid :: bool

record level2 =
  l2_email :: string
  l2_phone :: string
  l2_isEmailConfirmed :: bool
  l2_isPhoneConfirmed :: bool
  l2_validationComment :: "string option"
  l2_isValid :: bool

record level3 =
  l3_passport :: string
  l3_expirationDate :: string
  l3_attachments :: "string list"

record level4 =
  l4_country :: string
  l4_state :: string
  l4_city :: string
  l4_zip :: string
  l4_addressLine1 :: string
  l4_addressLine2 :: string
  l4_attachments :: "string list"

record verification_request =
  req_id :: oid
  req_user :: oid
  req_level :: string
  req_status :: string
  req_level1 :: "level1 option"
  req_level2 :: "level2 option"
  req_level3 :: "level3 option"
  req_level4 :: "level4 option"

text \<open>
  The request models of \<open>lib/models\<close>, told apart by \<open>instanceof\<close>. The arguments are
  the fields the service reads, in the order it reads them; a confirmation code that
  is absent is \<open>None\<close>.
\<close>

datatype request_model =
    VerificationRequestLevel1Model string string string
  | VerificationRequestLevel2Model string string
  | VerificationRequestLevel3Model string string "string list"
  | VerificationRequestLevel4Model string string string string string string "string list"
  | ConfirmationRequestLevel2Model "string option" "string option"
  | NotificationToggleModel string string string bool

record message =
  msg_to :: string
  msg_subject :: string
  msg_html :: string

text \<open>
  The calls that reach the storage and mail collaborators, in the order they are made.
  A call on SecurityCheck carries the \<open>type\<close> of the check, a call on
  VerificationRequest the \<open>level\<close>.
\<close>

datatype call =
    SignatureFindOne | SignatureCreate | UserCreate
  | TokenFindOne | TokenRemove
  | RequestFindOne string | RequestSave string | RequestCreate string
  | CheckFindOne string | CheckRemoveAll string | CheckCreate string | CheckRemove string
  | MessageSend message

record store =
  users :: "security_user list"
  signatures :: "security_signature list"
  tokens :: "security_token list"
  checks :: "security_check list"
  requests :: "verification_request list"
  nextId :: oid
  calls :: "call list"

text \<open>
  What the service uses and its source does not define: the defaults of the Keystone
  schemas (the status of a new VerificationRequest, its review fields, the \<open>level2\<close>
  field of a new SecurityUser, the code of a new SecurityCheck, which may depend on the
  document created), \<open>config.get('mail.baseURL')\<close>, \<open>confirmTemplate\<close> and whether
  \<open>message.send()\<close> resolves. They are parameters of the model.
\<close>

record env =
  defaultStatus :: string
  defaultComment :: "string option"
  defaultIsValid :: bool
  defaultLevel2 :: "level2_contact option"
  newCheck :: "oid \<Rightarrow> string"
  baseURL :: string
  confirmTemplate :: "string \<Rightarrow> string \<Rightarrow> string \<Rightarrow> string \<times> string"
  sendResolves :: "message \<Rightarrow> bool"

section \<open>The storage collaborator\<close>

definition called :: "call \<Rightarrow> store \<Rightarrow> store" where
  "called c s = s\<lparr>calls := calls s @ [c]\<rparr>"

text \<open>\<open>.populate('user')\<close>: the referenced SecurityUser, \<open>null\<close> when there is none.\<close>

definition populateUser :: "oid \<Rightarrow> store \<Rightarrow> security_user option" where
  "populateUser u s = find (\<lambda>x. user_id x = u) (users s)"

definition signatureFindOne ::
  "(security_signature \<Rightarrow> bool) \<Rightarrow> store
    \<Rightarrow> (security_signature \<times> security_user option) option \<times> store" where
  "signatureFindOne p s =
     (map_option (\<lambda>g. (g, populateUser (sig_user g) s)) (find p (signatures s)),
      called SignatureFindOne s)"

definition userCreate :: "env \<Rightarrow> string \<Rightarrow> store \<Rightarrow> security_user \<times> store" where
  "userCreate env name s =
     (let u = \<lparr>user_id = nextId s, user_name = name, user_level2 = defaultLevel2 env\<rparr>
      in (u, called UserCreate (s\<lparr>users := users s @ [u], nextId := Suc (nextId s)\<rparr>)))"

definition signatureCreate :: "oid \<Rightarrow> string \<Rightarrow> string \<Rightarrow> store \<Rightarrow> security_signature \<times> store" where
  "signatureCreate u type value s =
     (let g = \<lparr>sig_id = nextId s, sig_user = u, sig_type = type, sig_value = value\<rparr>
      in (g, called SignatureCreate
               (s\<lparr>signatures := signatures s @ [g], nextId := Suc (nextId s)\<rparr>)))"

definition tokenFindOne ::
  "(security_token \<Rightarrow> bool) \<Rightarrow> store
    \<Rightarrow> (security_token \<times> security_user option) option \<times> store" where
  "tokenFindOne p s =
     (map_option (\<lambda>t. (t, populateUser (tok_user t) s)) (find p (tokens s)),
      called TokenFindOne s)"

text \<open>\<open>doc.remove()\<close> deletes by \<open>_id\<close>.\<close>

definition tokenRemove :: "security_token \<Rightarrow> store \<Rightarrow> store" where
  "tokenRemove t s =
     called TokenRemove (s\<lparr>tokens := filter (\<lambda>x. tok_id x \<noteq> tok_id t) (tokens s)\<rparr>)"

section \<open>IdentityLinkRegistry and TokenVault\<close>

text \<open>
  \<open>String.prototype.toLowerCase\<close> on ASCII strings, which is what an address (\<open>0x\<close> and
  hexadecimal digits) is: the letters A to Z are lowercased. A \<open>char\<close> is a byte, and
  the cased characters outside ASCII, which JavaScript lowercases too, are left as they
  are.
\<close>

definition lowerChar :: "char \<Rightarrow> char" where
  "lowerChar c =
     (case map_of (zip ''ABCDEFGHIJKLMNOPQRSTUVWXYZ'' ''abcdefghijklmnopqrstuvwxyz'') c of
        Some l \<Rightarrow> l
      | None \<Rightarrow> c)"

definition toLowerCase :: "string \<Rightarrow> string" where
  "toLowerCase a = map lowerChar a"

text \<open>
  Modelled from the spec: \<open>PersonModel.fromMongo\<close> (in \<open>lib/models\<close>, not part of the
  source at hand) gives the bound account merged with the matched address value.
\<close>

record person =
  person_user :: "security_user option"
  person_address :: string

definition fromMongo :: "security_user option \<Rightarrow> string \<Rightarrow> person" where
  "fromMongo u a = \<lparr>person_user = u, person_address = a\<rparr>"

text \<open>
  \<open>selectPerson\<close> reads \<open>signature.user\<close> without a test: when \<open>findOne\<close> gave \<open>null\<close>
  the read throws a TypeError.
\<close>

definition selectPerson :: "string \<Rightarrow> store \<Rightarrow> (error + person) \<times> store" where
  "selectPerson address s =
     (case signatureFindOne
             (\<lambda>g. sig_value g = toLowerCase address \<and> sig_type g = ''ethereum-address'') s of
        (None, s1) \<Rightarrow> (Inl TypeError, s1)
      | (Some (signature, u), s1) \<Rightarrow> (Inr (fromMongo u (sig_value signature)), s1))"

definition requireSignature ::
  "env \<Rightarrow> string \<Rightarrow> string \<Rightarrow> store
    \<Rightarrow> (security_signature \<times> security_user option) option \<times> store" where
  "requireSignature env type value s =
     (case signatureFindOne (\<lambda>g. sig_value g = value \<and> sig_type g = type) s of
        (Some signature, s1) \<Rightarrow> (Some signature, s1)
      | (None, s1) \<Rightarrow>
          (let (u, s2) = userCreate env (type @ '':'' @ value) s1;
               (g, s3) = signatureCreate (user_id u) type value s2
           in signatureFindOne (\<lambda>x. sig_id x = sig_id g) s3))"

text \<open>
  \<open>removeToken\<close> calls \<open>result.remove()\<close> without a test: on \<open>null\<close> the call throws a
  TypeError, before anything is deleted.
\<close>

definition removeToken ::
  "string \<Rightarrow> store \<Rightarrow> (error + security_token \<times> security_user option) \<times> store" where
  "removeToken token s =
     (case tokenFindOne (\<lambda>t. tok_token t = token) s of
        (None, s1) \<Rightarrow> (Inl TypeError, s1)
      | (Some (t, u), s1) \<Rightarrow> (Inr (t, u), tokenRemove t s1))"

section \<open>VerificationWorkflow\<close>

definition requestFindOne ::
  "oid \<Rightarrow> string \<Rightarrow> string \<Rightarrow> store \<Rightarrow> verification_request option \<times> store" where
  "requestFindOne u level status s =
     (find (\<lambda>r. req_user r = u \<and> req_level r = level \<and> req_status r = status) (requests s),
      called (RequestFindOne level) s)"

text \<open>\<open>request.save()\<close> writes the document back under its \<open>_id\<close>.\<close>

definition requestSave :: "verification_request \<Rightarrow> store \<Rightarrow> store" where
  "requestSave r s =
     called (RequestSave (req_level r))
       (s\<lparr>requests := map (\<lambda>x. if req_id x = req_id r then r else x) (requests s)\<rparr>)"

text \<open>
  \<open>VerificationRequest.model.create\<close>: a new document with a fresh \<open>_id\<close>, the fields
  given and the schema's default status.
\<close>

definition requestCreate ::
  "env \<Rightarrow> oid \<Rightarrow> string \<Rightarrow> level1 option \<Rightarrow> level2 option \<Rightarrow> level3 option \<Rightarrow> level4 option
    \<Rightarrow> store \<Rightarrow> verification_request \<times> store" where
  "requestCreate env u level p1 p2 p3 p4 s =
     (let r = \<lparr>req_id = nextId s, req_user = u, req_level = level,
                req_status = defaultStatus env,
                req_level1 = p1, req_level2 = p2, req_level3 = p3, req_level4 = p4\<rparr>
      in (r, called (RequestCreate level)
               (s\<lparr>requests := requests s @ [r], nextId := Suc (nextId s)\<rparr>)))"

definition checkFindOne ::
  "oid \<Rightarrow> string \<Rightarrow> string \<Rightarrow> string \<Rightarrow> store \<Rightarrow> security_check option \<times> store" where
  "checkFindOne u type payload code s =
     (find (\<lambda>c. chk_user c = u \<and> chk_type c = type \<and> chk_payload c = payload
                 \<and> chk_check c = code) (checks s),
      called (CheckFindOne type) s)"

text \<open>\<open>SecurityCheck.model.remove({user, type})\<close> deletes every match.\<close>

definition checkRemoveAll :: "oid \<Rightarrow> string \<Rightarrow> store \<Rightarrow> store" where
  "checkRemoveAll u type s =
     called (CheckRemoveAll type)
       (s\<lparr>checks := filter (\<lambda>c. \<not> (chk_user c = u \<and> chk_type c = type)) (checks s)\<rparr>)"

definition checkCreate ::
  "env \<Rightarrow> oid \<Rightarrow> string \<Rightarrow> string \<Rightarrow> store \<Rightarrow> security_check \<times> store" where
  "checkCreate env u type payload s =
     (let c = \<lparr>chk_id = nextId s, chk_user = u, chk_type = type, chk_payload = payload,
                chk_check = newCheck env (nextId s)\<rparr>
      in (c, called (CheckCreate type)
               (s\<lparr>checks := checks s @ [c], nextId := Suc (nextId s)\<rparr>)))"

definition checkRemove :: "security_check \<Rightarrow> store \<Rightarrow> store" where
  "checkRemove c s =
     called (CheckRemove (chk_type c))
       (s\<lparr>checks := filter (\<lambda>x. chk_id x \<noteq> chk_id c) (checks s)\<rparr>)"

definition messageSend :: "env \<Rightarrow> message \<Rightarrow> store \<Rightarrow> (error + unit) \<times> store" where
  "messageSend env m s =
     (if sendResolves env m then Inr () else Inl SendError, called (MessageSend m) s)"

definition upsertLevel1Request ::
  "env \<Rightarrow> security_user \<Rightarrow> request_model \<Rightarrow> store \<Rightarrow> (error + unit) \<times> store" where
  "upsertLevel1Request env user requestModel s =
     (case requestModel of
        VerificationRequestLevel1Model userName birthDate avatar \<Rightarrow>
          (case requestFindOne (user_id user) ''level-1'' ''created'' s of
             (Some request, s1) \<Rightarrow>
               (Inr (),
                requestSave
                  (request\<lparr>req_level1 := Some
                     \<lparr>l1_userName = userName, l1_birthDate = birthDate, l1_avatar = avatar,
                      l1_validationComment = None, l1_isValid = False\<rparr>\<rparr>) s1)
           | (None, s1) \<Rightarrow>
               (Inr (),
                snd (requestCreate env (user_id user) ''level-1''
                       (Some \<lparr>l1_userName = userName, l1_birthDate = birthDate,
                              l1_avatar = avatar,
                              l1_validationComment = defaultComment env,
                              l1_isValid = defaultIsValid env\<rparr>)
                       None None None s1)))
      | _ \<Rightarrow> (Inl AssertionError, s))"

definition validatePhone :: "env \<Rightarrow> security_user \<Rightarrow> store \<Rightarrow> (error + unit) \<times> store" where
  "validatePhone env user s =
     (case requestFindOne (user_id user) ''level-2'' ''created'' s of
        (None, s1) \<Rightarrow> (Inl (WebError ''Illegal state'' 401), s1)
      | (Some request, s1) \<Rightarrow>
          (case req_level2 request of
             None \<Rightarrow> (Inl (WebError ''Illegal state'' 401), s1)
           | Some l2 \<Rightarrow>
               if l2_isPhoneConfirmed l2 then (Inl (WebError ''Illegal state'' 401), s1)
               else
                 (let s2 = checkRemoveAll (user_id user) ''confirm-phone'' s1;
                      (checkPhone, s3) =
                        checkCreate env (user_id user) ''confirm-phone'' (l2_phone l2) s2
                  in (Inr (), s3))))"

definition validateEmail :: "env \<Rightarrow> security_user \<Rightarrow> store \<Rightarrow> (error + unit) \<times> store" where
  "validateEmail env user s =
     (case requestFindOne (user_id user) ''level-2'' ''created'' s of
        (None, s1) \<Rightarrow> (Inl (WebError ''Illegal state'' 401), s1)
      | (Some request, s1) \<Rightarrow>
          (case req_level2 request of
             None \<Rightarrow> (Inl (WebError ''Illegal state'' 401), s1)
           | Some l2 \<Rightarrow>
               if l2_isEmailConfirmed l2 then (Inl (WebError ''Illegal state'' 401), s1)
               else
                 (let s2 = checkRemoveAll (user_id user) ''confirm-email'' s1;
                      (checkEmail, s3) =
                        checkCreate env (user_id user) ''confirm-email'' (l2_email l2) s2;
                      (subject, content) =
                        confirmTemplate env (baseURL env) (user_name user) (chk_check checkEmail)
                  in messageSend env
                       \<lparr>msg_to = l2_email l2, msg_subject = subject, msg_html = content\<rparr> s3)))"

text \<open>
  The two branches of \<open>upsertLevel2Request\<close> up to the point where \<open>request\<close> is
  assigned. Reading \<open>request.level2.email\<close> or \<open>user.level2.email\<close> on a missing
  \<open>level2\<close> throws a TypeError, before anything is written.
\<close>

definition upsertLevel2 ::
  "env \<Rightarrow> security_user \<Rightarrow> string \<Rightarrow> string \<Rightarrow> store
    \<Rightarrow> (error + verification_request) \<times> store" where
  "upsertLevel2 env user email phone s =
     (case requestFindOne (user_id user) ''level-2'' ''created'' s of
        (Some request, s1) \<Rightarrow>
          (case req_level2 request of
             None \<Rightarrow> (Inl TypeError, s1)
           | Some old \<Rightarrow>
               (let request' = request\<lparr>req_level2 := Some
                      \<lparr>l2_email = email, l2_phone = phone,
                       l2_isEmailConfirmed =
                         (if email = l2_email old then l2_isEmailConfirmed old else False),
                       l2_isPhoneConfirmed =
                         (if phone = l2_phone old then l2_isPhoneConfirmed old else False),
                       l2_validationComment = None, l2_isValid = False\<rparr>\<rparr>
                in (Inr request', requestSave request' s1)))
      | (None, s1) \<Rightarrow>
          (case user_level2 user of
             None \<Rightarrow> (Inl TypeError, s1)
           | Some contact \<Rightarrow>
               (let (request, s2) =
                      requestCreate env (user_id user) ''level-2'' None
                        (Some \<lparr>l2_email = email, l2_phone = phone,
                               l2_isEmailConfirmed = (Some email = contact_email contact),
                               l2_isPhoneConfirmed = (Some phone = contact_phone contact),
                               l2_validationComment = defaultComment env,
                               l2_isValid = defaultIsValid env\<rparr>)
                        None None s1
                in (Inr request, s2))))"

definition upsertLevel2Request ::
  "env \<Rightarrow> security_user \<Rightarrow> request_model \<Rightarrow> store \<Rightarrow> (error + unit) \<times> store" where
  "upsertLevel2Request env user requestModel s =
     (case requestModel of
        VerificationRequestLevel2Model email phone \<Rightarrow>
          (case upsertLevel2 env user email phone s of
             (Inl e, s1) \<Rightarrow> (Inl e, s1)
           | (Inr request, s1) \<Rightarrow>
               (case req_level2 request of
                  None \<Rightarrow> (Inl TypeError, s1)
                | Some l2 \<Rightarrow>
                    (case (if \<not> l2_isPhoneConfirmed l2 then validatePhone env user s1
                           else (Inr (), s1)) of
                       (Inl e, s2) \<Rightarrow> (Inl e, s2)
                     | (Inr _, s2) \<Rightarrow>
                         if \<not> l2_isEmailConfirmed l2 then validateEmail env user s2
                         else (Inr (), s2))))
      | _ \<Rightarrow> (Inl AssertionError, s))"

definition upsertLevel3Request ::
  "env \<Rightarrow> security_user \<Rightarrow> request_model \<Rightarrow> store \<Rightarrow> (error + unit) \<times> store" where
  "upsertLevel3Request env user requestModel s =
     (case requestModel of
        VerificationRequestLevel3Model passport expirationDate attachments \<Rightarrow>
          (let p = \<lparr>l3_passport = passport, l3_expirationDate = expirationDate,
                    l3_attachments = attachments\<rparr>
           in case requestFindOne (user_id user) ''level-3'' ''created'' s of
                (Some request, s1) \<Rightarrow>
                  (Inr (), requestSave (request\<lparr>req_level3 := Some p\<rparr>) s1)
              | (None, s1) \<Rightarrow>
                  (Inr (),
                   snd (requestCreate env (user_id user) ''level-3'' None None (Some p) None s1)))
      | _ \<Rightarrow> (Inl AssertionError, s))"

definition upsertLevel4Request ::
  "env \<Rightarrow> security_user \<Rightarrow> request_model \<Rightarrow> store \<Rightarrow> (error + unit) \<times> store" where
  "upsertLevel4Request env user requestModel s =
     (case requestModel of
        VerificationRequestLevel4Model country state city zip' addressLine1 addressLine2
            attachments \<Rightarrow>
          (let p = \<lparr>l4_country = country, l4_state = state, l4_city = city, l4_zip = zip',
                    l4_addressLine1 = addressLine1, l4_addressLine2 = addressLine2,
                    l4_attachments = attachments\<rparr>
           in case requestFindOne (user_id user) ''level-4'' ''created'' s of
                (Some request, s1) \<Rightarrow>
                  (Inr (), requestSave (request\<lparr>req_level4 := Some p\<rparr>) s1)
              | (None, s1) \<Rightarrow>
                  (Inr (),
                   snd (requestCreate env (user_id user) ''level-4'' None None None (Some p) s1)))
      | _ \<Rightarrow> (Inl AssertionError, s))"

section \<open>ConfirmationProcessor\<close>

text \<open>\<open>if (requestModel.emailCode)\<close>: an absent code and the empty string are falsy.\<close>

definition truthy :: "string option \<Rightarrow> bool" where
  "truthy code = (case code of None \<Rightarrow> False | Some v \<Rightarrow> v \<noteq> [])"

record confirmation =
  isEmailTried :: bool
  isEmailVerified :: bool
  isPhoneTried :: bool
  isPhoneVerified :: bool

text \<open>
  The email block of \<open>confirmLevel2Request\<close>: the request as it stands after the block
  and \<open>(isEmailTried, isEmailVerified)\<close>.
\<close>

definition confirmEmail ::
  "security_user \<Rightarrow> string option \<Rightarrow> verification_request \<Rightarrow> store
    \<Rightarrow> (error + verification_request \<times> bool \<times> bool) \<times> store" where
  "confirmEmail user emailCode request s =
     (if truthy emailCode then
        (case req_level2 request of
           None \<Rightarrow> (Inl TypeError, s)
         | Some l2 \<Rightarrow>
             (case checkFindOne (user_id user) ''confirm-email'' (l2_email l2)
                     (the emailCode) s of
                (Some checkEmail, s1) \<Rightarrow>
                  (Inr (request\<lparr>req_level2 := Some (l2\<lparr>l2_isEmailConfirmed := True\<rparr>)\<rparr>,
                        True, True),
                   checkRemove checkEmail s1)
              | (None, s1) \<Rightarrow> (Inr (request, True, False), s1)))
      else (Inr (request, False, False), s))"

text \<open>The phone block, on the request the email block left.\<close>

definition confirmPhone ::
  "security_user \<Rightarrow> string option \<Rightarrow> verification_request \<Rightarrow> store
    \<Rightarrow> (error + verification_request \<times> bool \<times> bool) \<times> store" where
  "confirmPhone user phoneCode request s =
     (if truthy phoneCode then
        (case req_level2 request of
           None \<Rightarrow> (Inl TypeError, s)
         | Some l2 \<Rightarrow>
             (case checkFindOne (user_id user) ''confirm-phone'' (l2_phone l2)
                     (the phoneCode) s of
                (Some checkPhone, s1) \<Rightarrow>
                  (Inr (request\<lparr>req_level2 := Some (l2\<lparr>l2_isPhoneConfirmed := True\<rparr>)\<rparr>,
                        True, True),
                   checkRemove checkPhone s1)
              | (None, s1) \<Rightarrow> (Inr (request, True, False), s1)))
      else (Inr (request, False, False), s))"

definition confirmLevel2Request ::
  "security_user \<Rightarrow> request_model \<Rightarrow> store \<Rightarrow> (error + confirmation) \<times> store" where
  "confirmLevel2Request user requestModel s =
     (case requestModel of
        ConfirmationRequestLevel2Model emailCode phoneCode \<Rightarrow>
          (case requestFindOne (user_id user) ''level-2'' ''created'' s of
             (None, s1) \<Rightarrow> (Inl AssertionError, s1)
           | (Some request, s1) \<Rightarrow>
               (case confirmEmail user emailCode request s1 of
                  (Inl e, s2) \<Rightarrow> (Inl e, s2)
                | (Inr (request1, emailTried, emailVerified), s2) \<Rightarrow>
                    (case confirmPhone user phoneCode request1 s2 of
                       (Inl e, s3) \<Rightarrow> (Inl e, s3)
                     | (Inr (request2, phoneTried, phoneVerified), s3) \<Rightarrow>
                         (Inr \<lparr>isEmailTried = emailTried, isEmailVerified = emailVerified,
                               isPhoneTried = phoneTried, isPhoneVerified = phoneVerified\<rparr>,
                          if phoneVerified \<or> emailVerified then requestSave request2 s3
                          else s3))))
      | _ \<Rightarrow> (Inl AssertionError, s))"

section \<open>Invariants of the store and example data\<close>

text \<open>
  Mongo gives every document of a collection its own \<open>_id\<close>; \<open>nextId\<close> is above all
  of them.
\<close>

definition fresh_ids :: "('a \<Rightarrow> oid) \<Rightarrow> 'a list \<Rightarrow> oid \<Rightarrow> bool" where
  "fresh_ids f xs n = (distinct (map f xs) \<and> list_all (\<lambda>x. f x < n) xs)"

text \<open>At most one request per (account, level) with status "created".\<close>

definition oneCreated :: "verification_request list \<Rightarrow> bool" where
  "oneCreated rs =
     distinct (map (\<lambda>r. (req_user r, req_level r))
                 (filter (\<lambda>r. req_status r = ''created'') rs))"

text \<open>A level-2 request carries its level-2 data.\<close>

definition level2Carried :: "verification_request list \<Rightarrow> bool" where
  "level2Carried rs = list_all (\<lambda>r. req_level r = ''level-2'' \<longrightarrow> req_level2 r \<noteq> None) rs"

definition env0 :: env where
  "env0 = \<lparr>defaultStatus = ''created'', defaultComment = None, defaultIsValid = False,
           defaultLevel2 = None,
           newCheck = (\<lambda>n. if n = 5 then ''1111'' else ''2222''),
           baseURL = ''https://laborx.example'',
           confirmTemplate = (\<lambda>b u c. (''Confirm your email'', b @ ''/'' @ c)),
           sendResolves = (\<lambda>m. True)\<rparr>"

definition alice :: security_user where
  "alice = \<lparr>user_id = 0, user_name = ''alice'',
            user_level2 = Some \<lparr>contact_email = Some ''a@x.com'', contact_phone = None\<rparr>\<rparr>"

definition store0 :: store where
  "store0 = \<lparr>users = [alice],
             signatures = [\<lparr>sig_id = 1, sig_user = 0, sig_type = ''ethereum-address'',
                            sig_value = ''0xabc''\<rparr>],
             tokens = [\<lparr>tok_id = 2, tok_user = 0, tok_purpose = ''login'',
                        tok_token = ''t0''\<rparr>],
             checks = [], requests = [], nextId = 3, calls = []\<rparr>"

text \<open>The request that \<open>findOne({user, level, status: 'created'})\<close> gives.\<close>

definition pendingRequest :: "security_user \<Rightarrow> string \<Rightarrow> store \<Rightarrow> verification_request option" where
  "pendingRequest user level s = fst (requestFindOne (user_id user) level ''created'' s)"

text \<open>
  What a submit operation with outcome \<open>res\<close> has done to the requests of \<open>s\<close>: at most
  one "created" request per (account, level) still; when a "created" request of the
  level was there, the documents are the same ones (none added); otherwise at most one
  is added, and when the operation returns normally exactly one is, for this account
  and level, after the requests that were there.
\<close>

definition upserted :: "security_user \<Rightarrow> string \<Rightarrow> store \<Rightarrow> (error + unit) \<times> store \<Rightarrow> bool" where
  "upserted user level s res =
     (oneCreated (requests (snd res))
      \<and> (pendingRequest user level s \<noteq> None \<longrightarrow>
           map req_id (requests (snd res)) = map req_id (requests s))
      \<and> (pendingRequest user level s = None \<longrightarrow>
           length (requests (snd res)) \<le> Suc (length (requests s))
           \<and> (fst res = Inr () \<longrightarrow>
                length (requests (snd res)) = Suc (length (requests s))
                \<and> take (length (requests s)) (requests (snd res)) = requests s
                \<and> req_user (last (requests (snd res))) = user_id user
                \<and> req_level (last (requests (snd res))) = level)))"

text \<open>How many times a call has been made so far.\<close>

definition made :: "call \<Rightarrow> store \<Rightarrow> nat" where
  "made c s = count_list (calls s) c"

definition level1Model :: request_model where
  "level1Model = VerificationRequestLevel1Model ''Alice'' ''1990-01-01'' ''avatar-1''"

text \<open>\<open>store0\<close> after alice's first level-1 submission.\<close>

definition store1 :: store where
  "store1 = snd (upsertLevel1Request env0 alice level1Model store0)"

definition level2Data :: level2 where
  "level2Data = \<lparr>l2_email = ''b@x.com'', l2_phone = ''+1000'', l2_isEmailConfirmed = False,
                 l2_isPhoneConfirmed = False, l2_validationComment = None, l2_isValid = False\<rparr>"

definition aliceRequest :: verification_request where
  "aliceRequest = \<lparr>req_id = 4, req_user = 0, req_level = ''level-2'', req_status = ''created'',
               req_level1 = None, req_level2 = Some level2Data, req_level3 = None,
               req_level4 = None\<rparr>"

definition phoneCheck :: security_check where
  "phoneCheck = \<lparr>chk_id = 5, chk_user = 0, chk_type = ''confirm-phone'',
                 chk_payload = ''+1000'', chk_check = ''1111''\<rparr>"

definition emailCheck :: security_check where
  "emailCheck = \<lparr>chk_id = 6, chk_user = 0, chk_type = ''confirm-email'',
                 chk_payload = ''b@x.com'', chk_check = ''2222''\<rparr>"

text \<open>
  A store with alice's pending level-2 request, for the email \<open>b@x.com\<close> and the phone
  \<open>+1000\<close>, and the two checks issued for it.
\<close>

definition store2 :: store where
  "store2 = \<lparr>users = [alice], signatures = [], tokens = [],
             checks = [phoneCheck, emailCheck], requests = [aliceRequest], nextId = 7,
             calls = []\<rparr>"

text \<open>The checks of an account for a purpose, and the other checks.\<close>

definition checksOf :: "security_user \<Rightarrow> string \<Rightarrow> store \<Rightarrow> security_check list" where
  "checksOf user type s = filter (\<lambda>c. chk_user c = user_id user \<and> chk_type c = type) (checks s)"

definition otherChecks :: "security_user \<Rightarrow> string \<Rightarrow> store \<Rightarrow> security_check list" where
  "otherChecks user type s =
     filter (\<lambda>c. \<not> (chk_user c = user_id user \<and> chk_type c = type)) (checks s)"

text \<open>\<open>store2\<close> after alice has confirmed the email.\<close>

definition confirmedRequest :: verification_request where
  "confirmedRequest = aliceRequest\<lparr>req_level2 := Some (level2Data\<lparr>l2_isEmailConfirmed := True\<rparr>)\<rparr>"

definition store3 :: store where
  "store3 = \<lparr>users = [alice], signatures = [], tokens = [],
             checks = [phoneCheck], requests = [confirmedRequest], nextId = 7,
             calls = []\<rparr>"

section \<open>IdentityLinkRegistry and TokenVault: lookups\<close>

lemma called_simps [simp]:
  "users (called c s) = users s" "signatures (called c s) = signatures s"
  "tokens (called c s) = tokens s" "checks (called c s) = checks s"
  "requests (called c s) = requests s" "nextId (called c s) = nextId s"
  "calls (called c s) = calls s @ [c]"
  by (simp_all add: called_def)

lemma selectPerson_found:
  assumes "find (\<lambda>g. sig_value g = toLowerCase address \<and> sig_type g = ''ethereum-address'')
             (signatures s) = Some g"
  shows "selectPerson address s =
           (Inr \<lparr>person_user = populateUser (sig_user g) s, person_address = sig_value g\<rparr>,
            called SignatureFindOne s)"
  using assms by (simp add: selectPerson_def signatureFindOne_def fromMongo_def)

lemma selectPerson_not_found:
  assumes "find (\<lambda>g. sig_value g = toLowerCase address \<and> sig_type g = ''ethereum-address'')
             (signatures s) = None"
  shows "selectPerson address s = (Inl TypeError, called SignatureFindOne s)"
  using assms by (simp add: selectPerson_def signatureFindOne_def)

text \<open>
  C8. \<open>selectPerson\<close> lowercases the address and returns the account bound to the
  matching ethereum-address signature, merged with the address; for an address that no
  signature matches the claim asks for NotFound. Here the address \<open>0xDEF\<close> has no
  signature in \<open>store0\<close>: the call fails with the TypeError of reading \<open>signature.user\<close>
  on \<open>null\<close>, and the store is as it was but for the recorded lookup.
\<close>

theorem selectPerson_unknown_address:
  "selectPerson ''0xDEF'' store0 = (Inl TypeError, called SignatureFindOne store0)
   \<and> selectPerson ''0xABC'' store0 =
       (Inr \<lparr>person_user = Some alice, person_address = ''0xabc''\<rparr>,
        called SignatureFindOne store0)"
  by (simp add: selectPerson_def signatureFindOne_def fromMongo_def populateUser_def
      store0_def alice_def toLowerCase_def lowerChar_def)

lemma removeToken_found:
  assumes "find (\<lambda>t. tok_token t = token) (tokens s) = Some t"
  shows "removeToken token s =
           (Inr (t, populateUser (tok_user t) s),
            called TokenRemove
              (called TokenFindOne s\<lparr>tokens := filter (\<lambda>x. tok_id x \<noteq> tok_id t) (tokens s)\<rparr>))"
  using assms by (simp add: removeToken_def tokenFindOne_def tokenRemove_def called_def)

lemma removeToken_not_found:
  assumes "find (\<lambda>t. tok_token t = token) (tokens s) = None"
  shows "removeToken token s = (Inl TypeError, called TokenFindOne s)"
  using assms by (simp add: removeToken_def tokenFindOne_def)

text \<open>
  C9. \<open>removeToken\<close> on a token value that exists deletes that token and returns the
  deleted record; on a value that does not exist the claim asks for NotFound and no
  deletion. Here \<open>store0\<close> holds the token \<open>t0\<close> only: removing \<open>t1\<close> deletes nothing
  and fails with the TypeError of calling \<open>result.remove()\<close> on \<open>null\<close>.
\<close>

theorem removeToken_unknown_token:
  "removeToken ''t1'' store0 = (Inl TypeError, called TokenFindOne store0)
   \<and> fst (removeToken ''t0'' store0) =
       Inr (\<lparr>tok_id = 2, tok_user = 0, tok_purpose = ''login'', tok_token = ''t0''\<rparr>, Some alice)
   \<and> tokens (snd (removeToken ''t0'' store0)) = []"
  by (simp add: removeToken_def tokenFindOne_def tokenRemove_def populateUser_def
      store0_def alice_def)

section \<open>VerificationWorkflow: the requests after a submission\<close>


lemma find_app: "find P (xs @ ys) = (case find P xs of None \<Rightarrow> find P ys | Some x \<Rightarrow> Some x)"
  by (induction xs) auto

lemma requests_validatePhone [simp]: "requests (snd (validatePhone env user s)) = requests s"
  by (simp add: validatePhone_def requestFindOne_def checkRemoveAll_def checkCreate_def Let_def
      split: option.splits)

lemma requests_validateEmail [simp]: "requests (snd (validateEmail env user s)) = requests s"
  by (simp add: validateEmail_def requestFindOne_def checkRemoveAll_def checkCreate_def
      messageSend_def Let_def split: option.splits prod.splits)

lemma validatePhone_requests: "validatePhone env user s = (r, s') \<Longrightarrow> requests s' = requests s"
  using requests_validatePhone [of env user s] by simp

lemma validateEmail_requests: "validateEmail env user s = (r, s') \<Longrightarrow> requests s' = requests s"
  using requests_validateEmail [of env user s] by simp

lemma requests_upsertLevel2Request:
  "requests (snd (upsertLevel2Request env user (VerificationRequestLevel2Model email phone) s))
     = requests (snd (upsertLevel2 env user email phone s))"
  by (auto simp: upsertLevel2Request_def split: prod.splits sum.splits option.splits
      dest: validatePhone_requests validateEmail_requests)

lemma oneCreated_map:
  assumes "\<And>x. x \<in> set rs \<Longrightarrow> req_user (f x) = req_user x \<and> req_level (f x) = req_level x
              \<and> req_status (f x) = req_status x"
  shows "oneCreated (map f rs) = oneCreated rs"
proof -
  have "map (\<lambda>r. (req_user r, req_level r)) (filter (\<lambda>r. req_status r = ''created'') (map f rs))
      = map (\<lambda>r. (req_user r, req_level r)) (filter (\<lambda>r. req_status r = ''created'') rs)"
    using assms by (induction rs) auto
  then show ?thesis by (simp add: oneCreated_def)
qed

lemma find_SomeD: "find P xs = Some x \<Longrightarrow> x \<in> set xs \<and> P x"
  by (induction xs) (auto split: if_splits)

lemma oneCreated_save:
  assumes found: "find P rs = Some r" and ids: "distinct (map req_id rs)"
    and same: "req_user r' = req_user r" "req_level r' = req_level r"
      "req_status r' = req_status r"
  shows "oneCreated (map (\<lambda>x. if req_id x = req_id r then r' else x) rs) = oneCreated rs"
proof (rule oneCreated_map)
  fix x assume x: "x \<in> set rs"
  have r: "r \<in> set rs" using found by (simp add: find_SomeD)
  have "req_id x = req_id r \<Longrightarrow> x = r"
    using ids x r by (meson distinct_map inj_onD)
  then show "req_user (if req_id x = req_id r then r' else x) = req_user x
     \<and> req_level (if req_id x = req_id r then r' else x) = req_level x
     \<and> req_status (if req_id x = req_id r then r' else x) = req_status x"
    using same by auto
qed

lemma oneCreated_create:
  assumes none: "find (\<lambda>r. req_user r = u \<and> req_level r = l \<and> req_status r = ''created'') rs = None"
    and inv: "oneCreated rs" and r: "req_user r = u" "req_level r = l"
  shows "oneCreated (rs @ [r])"
  using assms by (auto simp: oneCreated_def find_None_iff)


lemma map_ids_save:
  "req_id r' = req_id r \<Longrightarrow>
   map req_id (map (\<lambda>x. if req_id x = req_id r then r' else x) rs) = map req_id rs"
  by (induction rs) auto

lemma pendingRequest_find:
  "pendingRequest user level s =
     find (\<lambda>r. req_user r = user_id user \<and> req_level r = level \<and> req_status r = ''created'')
       (requests s)"
  by (simp add: pendingRequest_def requestFindOne_def)

lemma upsertLevel1Request_upserted:
  assumes "distinct (map req_id (requests s))" "oneCreated (requests s)"
  shows "upserted user ''level-1'' s (upsertLevel1Request env user m s)"
proof (cases m)
  case (VerificationRequestLevel1Model a b c)
  show ?thesis
  proof (cases "pendingRequest user ''level-1'' s")
    case None
    then show ?thesis
      using assms VerificationRequestLevel1Model
      by (simp add: upserted_def pendingRequest_find upsertLevel1Request_def requestFindOne_def
          requestCreate_def Let_def oneCreated_create)
  next
    case (Some r)
    then show ?thesis
      using assms VerificationRequestLevel1Model
      by (simp add: upserted_def pendingRequest_find upsertLevel1Request_def requestFindOne_def
          requestSave_def oneCreated_save map_ids_save)
  qed
qed (use assms in \<open>simp_all add: upserted_def upsertLevel1Request_def\<close>)

lemma upsertLevel3Request_upserted:
  assumes "distinct (map req_id (requests s))" "oneCreated (requests s)"
  shows "upserted user ''level-3'' s (upsertLevel3Request env user m s)"
proof (cases m)
  case (VerificationRequestLevel3Model a b c)
  show ?thesis
  proof (cases "pendingRequest user ''level-3'' s")
    case None
    then show ?thesis
      using assms VerificationRequestLevel3Model
      by (simp add: upserted_def pendingRequest_find upsertLevel3Request_def requestFindOne_def
          requestCreate_def Let_def oneCreated_create)
  next
    case (Some r)
    then show ?thesis
      using assms VerificationRequestLevel3Model
      by (simp add: upserted_def pendingRequest_find upsertLevel3Request_def requestFindOne_def
          requestSave_def oneCreated_save map_ids_save)
  qed
qed (use assms in \<open>simp_all add: upserted_def upsertLevel3Request_def\<close>)

lemma upsertLevel4Request_upserted:
  assumes "distinct (map req_id (requests s))" "oneCreated (requests s)"
  shows "upserted user ''level-4'' s (upsertLevel4Request env user m s)"
proof (cases m)
  case (VerificationRequestLevel4Model a b c d e f g)
  show ?thesis
  proof (cases "pendingRequest user ''level-4'' s")
    case None
    then show ?thesis
      using assms VerificationRequestLevel4Model
      by (simp add: upserted_def pendingRequest_find upsertLevel4Request_def requestFindOne_def
          requestCreate_def Let_def oneCreated_create)
  next
    case (Some r)
    then show ?thesis
      using assms VerificationRequestLevel4Model
      by (simp add: upserted_def pendingRequest_find upsertLevel4Request_def requestFindOne_def
          requestSave_def oneCreated_save map_ids_save)
  qed
qed (use assms in \<open>simp_all add: upserted_def upsertLevel4Request_def\<close>)

lemma upsertLevel2_found:
  assumes "pendingRequest user ''level-2'' s = Some r" "req_level2 r = Some old"
  shows "upsertLevel2 env user email phone s =
    (let r' = r\<lparr>req_level2 := Some
                \<lparr>l2_email = email, l2_phone = phone,
                 l2_isEmailConfirmed = (email = l2_email old \<and> l2_isEmailConfirmed old),
                 l2_isPhoneConfirmed = (phone = l2_phone old \<and> l2_isPhoneConfirmed old),
                 l2_validationComment = None, l2_isValid = False\<rparr>\<rparr>
     in (Inr r', requestSave r' (called (RequestFindOne ''level-2'') s)))"
  using assms
  by (simp add: upsertLevel2_def pendingRequest_def requestFindOne_def Let_def)

lemma upsertLevel2_found_no_data:
  assumes "pendingRequest user ''level-2'' s = Some r" "req_level2 r = None"
  shows "upsertLevel2 env user email phone s = (Inl TypeError, called (RequestFindOne ''level-2'') s)"
  using assms
  by (simp add: upsertLevel2_def pendingRequest_def requestFindOne_def Let_def)

lemma upsertLevel2_new:
  assumes "pendingRequest user ''level-2'' s = None" "user_level2 user = Some contact"
  shows "upsertLevel2 env user email phone s =
    (let r = \<lparr>req_id = nextId s, req_user = user_id user, req_level = ''level-2'',
              req_status = defaultStatus env, req_level1 = None,
              req_level2 = Some
                \<lparr>l2_email = email, l2_phone = phone,
                 l2_isEmailConfirmed = (Some email = contact_email contact),
                 l2_isPhoneConfirmed = (Some phone = contact_phone contact),
                 l2_validationComment = defaultComment env,
                 l2_isValid = defaultIsValid env\<rparr>,
              req_level3 = None, req_level4 = None\<rparr>
     in (Inr r, called (RequestCreate ''level-2'')
                  (called (RequestFindOne ''level-2'') s
                     \<lparr>requests := requests s @ [r], nextId := Suc (nextId s)\<rparr>)))"
  using assms
  by (simp add: upsertLevel2_def pendingRequest_def requestFindOne_def requestCreate_def Let_def
      called_def)

lemma upsertLevel2_new_no_contact:
  assumes "pendingRequest user ''level-2'' s = None" "user_level2 user = None"
  shows "upsertLevel2 env user email phone s = (Inl TypeError, called (RequestFindOne ''level-2'') s)"
  using assms
  by (simp add: upsertLevel2_def pendingRequest_def requestFindOne_def Let_def)

lemma upsertLevel2Request_Inr:
  "fst (upsertLevel2Request env user (VerificationRequestLevel2Model email phone) s) = Inr ()
   \<Longrightarrow> \<exists>r. fst (upsertLevel2 env user email phone s) = Inr r"
  by (auto simp: upsertLevel2Request_def split: prod.splits sum.splits option.splits)

lemma upsertLevel2Request_upserted:
  assumes "distinct (map req_id (requests s))" "oneCreated (requests s)"
  shows "upserted user ''level-2'' s (upsertLevel2Request env user m s)"
proof (cases m)
  case (VerificationRequestLevel2Model email phone)
  note m = this
  show ?thesis
  proof (cases "pendingRequest user ''level-2'' s")
    case None
    show ?thesis
    proof (cases "user_level2 user")
      case (Some contact)
      show ?thesis
        using assms None
        by (simp add: upserted_def m requests_upsertLevel2Request
            upsertLevel2_new [OF None Some] Let_def oneCreated_create pendingRequest_find)
    next
      case no: None
      have "fst (upsertLevel2Request env user m s) \<noteq> Inr ()"
        using upsertLevel2Request_Inr [of env user email phone s]
        by (auto simp: m upsertLevel2_new_no_contact [OF None no])
      then show ?thesis
        using assms None
        by (simp add: upserted_def m requests_upsertLevel2Request
            upsertLevel2_new_no_contact [OF None no])
    qed
  next
    case (Some r)
    show ?thesis
    proof (cases "req_level2 r")
      case None
      then show ?thesis
        using assms Some
        by (simp add: upserted_def m requests_upsertLevel2Request
            upsertLevel2_found_no_data [OF Some None])
    next
      case old: (Some old)
      show ?thesis
        using assms Some
        by (simp add: upserted_def m requests_upsertLevel2Request
            upsertLevel2_found [OF Some old] Let_def requestSave_def pendingRequest_find
            oneCreated_save map_ids_save)
    qed
  qed
qed (use assms in \<open>simp_all add: upserted_def upsertLevel2Request_def\<close>)

lemma fresh_ids_alt: "fresh_ids f xs n = (distinct (map f xs) \<and> (\<forall>i\<in>set (map f xs). i < n))"
  by (auto simp: fresh_ids_def list_all_iff)

lemma fresh_ids_mono: "fresh_ids f xs n \<Longrightarrow> n \<le> m \<Longrightarrow> fresh_ids f xs m"
  by (fastforce simp: fresh_ids_alt)

lemma fresh_ids_create: "fresh_ids f xs n \<Longrightarrow> f x = n \<Longrightarrow> fresh_ids f (xs @ [x]) (Suc n)"
  by (fastforce simp: fresh_ids_alt)

lemma fresh_ids_save:
  "fresh_ids req_id rs n \<Longrightarrow> req_id r' = req_id r \<Longrightarrow>
   fresh_ids req_id (map (\<lambda>x. if req_id x = req_id r then r' else x) rs) n"
proof -
  assume a: "fresh_ids req_id rs n" and b: "req_id r' = req_id r"
  have e: "map req_id (map (\<lambda>x. if req_id x = req_id r then r' else x) rs) = map req_id rs"
    using b by (rule map_ids_save)
  show ?thesis
    unfolding fresh_ids_alt e using a [unfolded fresh_ids_alt] .
qed

lemma nextId_validatePhone: "nextId s \<le> nextId (snd (validatePhone env user s))"
  by (simp add: validatePhone_def requestFindOne_def checkRemoveAll_def checkCreate_def Let_def
      split: option.splits)

lemma nextId_validateEmail: "nextId s \<le> nextId (snd (validateEmail env user s))"
  by (simp add: validateEmail_def requestFindOne_def checkRemoveAll_def checkCreate_def
      messageSend_def Let_def split: option.splits prod.splits)

lemma nextId_upsertLevel2Request:
  "nextId (snd (upsertLevel2 env user email phone s))
     \<le> nextId (snd (upsertLevel2Request env user (VerificationRequestLevel2Model email phone) s))"
proof -
  have a: "\<And>t r t'. validatePhone env user t = (r, t') \<Longrightarrow> nextId t \<le> nextId t'"
    using nextId_validatePhone by (metis snd_conv)
  have b: "\<And>n t. n \<le> nextId t \<Longrightarrow> n \<le> nextId (snd (validateEmail env user t))"
    using nextId_validateEmail [of _ env user] by (meson order_trans)
  show ?thesis
    by (auto simp: upsertLevel2Request_def split: prod.splits sum.splits option.splits
        dest!: a intro!: b)
qed

lemma fresh_upsertLevel1Request:
  assumes "fresh_ids req_id (requests s) (nextId s)"
  shows "fresh_ids req_id (requests (snd (upsertLevel1Request env user m s)))
           (nextId (snd (upsertLevel1Request env user m s)))"
  using assms
  by (cases m; cases "pendingRequest user ''level-1'' s")
     (simp_all add: upsertLevel1Request_def requestFindOne_def requestSave_def requestCreate_def
        pendingRequest_find Let_def fresh_ids_save fresh_ids_create)

lemma fresh_upsertLevel3Request:
  assumes "fresh_ids req_id (requests s) (nextId s)"
  shows "fresh_ids req_id (requests (snd (upsertLevel3Request env user m s)))
           (nextId (snd (upsertLevel3Request env user m s)))"
  using assms
  by (cases m; cases "pendingRequest user ''level-3'' s")
     (simp_all add: upsertLevel3Request_def requestFindOne_def requestSave_def requestCreate_def
        pendingRequest_find Let_def fresh_ids_save fresh_ids_create)

lemma fresh_upsertLevel4Request:
  assumes "fresh_ids req_id (requests s) (nextId s)"
  shows "fresh_ids req_id (requests (snd (upsertLevel4Request env user m s)))
           (nextId (snd (upsertLevel4Request env user m s)))"
  using assms
  by (cases m; cases "pendingRequest user ''level-4'' s")
     (simp_all add: upsertLevel4Request_def requestFindOne_def requestSave_def requestCreate_def
        pendingRequest_find Let_def fresh_ids_save fresh_ids_create)

lemma fresh_upsertLevel2:
  assumes "fresh_ids req_id (requests s) (nextId s)"
  shows "fresh_ids req_id (requests (snd (upsertLevel2 env user email phone s)))
           (nextId (snd (upsertLevel2 env user email phone s)))"
  using assms
  by (simp add: upsertLevel2_def requestFindOne_def requestSave_def requestCreate_def
        Let_def fresh_ids_save fresh_ids_create split: option.splits)

lemma fresh_upsertLevel2Request:
  assumes "fresh_ids req_id (requests s) (nextId s)"
  shows "fresh_ids req_id (requests (snd (upsertLevel2Request env user m s)))
           (nextId (snd (upsertLevel2Request env user m s)))"
proof (cases m)
  case (VerificationRequestLevel2Model email phone)
  show ?thesis
    unfolding VerificationRequestLevel2Model requests_upsertLevel2Request
    using fresh_upsertLevel2 [OF assms] nextId_upsertLevel2Request
    by (rule fresh_ids_mono)
qed (use assms in \<open>simp_all add: upsertLevel2Request_def\<close>)

lemma map_save_eq:
  assumes "distinct (map req_id rs)" "r \<in> set rs"
  shows "map (\<lambda>x. if req_id x = req_id r then r' else x) rs
           = map (\<lambda>x. if x = r then r' else x) rs"
proof (rule map_cong [OF refl])
  fix x assume "x \<in> set rs"
  then have "req_id x = req_id r \<longleftrightarrow> x = r"
    using assms by (meson distinct_map inj_onD)
  then show "(if req_id x = req_id r then r' else x) = (if x = r then r' else x)"
    by simp
qed

lemma pendingRequest_mem: "pendingRequest user level s = Some r \<Longrightarrow> r \<in> set (requests s)"
  using find_SomeD unfolding pendingRequest_find by fast

lemma upsertLevel1Request_writes:
  assumes d: "distinct (map req_id (requests s))"
  shows "fst (upsertLevel1Request env user
                (VerificationRequestLevel1Model userName birthDate avatar) s) = Inr ()
     \<and> (\<forall>r. pendingRequest user ''level-1'' s = Some r \<longrightarrow>
          requests (snd (upsertLevel1Request env user
                           (VerificationRequestLevel1Model userName birthDate avatar) s))
            = map (\<lambda>x. if x = r
                        then r\<lparr>req_level1 := Some
                               \<lparr>l1_userName = userName, l1_birthDate = birthDate,
                                l1_avatar = avatar, l1_validationComment = None,
                                l1_isValid = False\<rparr>\<rparr>
                        else x) (requests s))
     \<and> (pendingRequest user ''level-1'' s = None \<longrightarrow>
          requests (snd (upsertLevel1Request env user
                           (VerificationRequestLevel1Model userName birthDate avatar) s))
            = requests s @
              [\<lparr>req_id = nextId s, req_user = user_id user, req_level = ''level-1'',
                req_status = defaultStatus env,
                req_level1 = Some \<lparr>l1_userName = userName, l1_birthDate = birthDate,
                                   l1_avatar = avatar,
                                   l1_validationComment = defaultComment env,
                                   l1_isValid = defaultIsValid env\<rparr>,
                req_level2 = None, req_level3 = None, req_level4 = None\<rparr>])"
proof (cases "pendingRequest user ''level-1'' s")
  case None
  then show ?thesis
    by (simp add: pendingRequest_find upsertLevel1Request_def requestFindOne_def
        requestCreate_def Let_def)
next
  case (Some r)
  then show ?thesis
    using map_save_eq [OF d pendingRequest_mem [OF Some]]
    by (simp add: pendingRequest_find upsertLevel1Request_def requestFindOne_def
        requestSave_def)
qed

lemma upsertLevel3Request_writes:
  assumes d: "distinct (map req_id (requests s))"
  shows "fst (upsertLevel3Request env user
                (VerificationRequestLevel3Model passport expirationDate attachments) s) = Inr ()
     \<and> (\<forall>r. pendingRequest user ''level-3'' s = Some r \<longrightarrow>
          requests (snd (upsertLevel3Request env user
                           (VerificationRequestLevel3Model passport expirationDate attachments) s))
            = map (\<lambda>x. if x = r
                        then r\<lparr>req_level3 := Some
                               \<lparr>l3_passport = passport, l3_expirationDate = expirationDate,
                                l3_attachments = attachments\<rparr>\<rparr>
                        else x) (requests s))
     \<and> (pendingRequest user ''level-3'' s = None \<longrightarrow>
          requests (snd (upsertLevel3Request env user
                           (VerificationRequestLevel3Model passport expirationDate attachments) s))
            = requests s @
              [\<lparr>req_id = nextId s, req_user = user_id user, req_level = ''level-3'',
                req_status = defaultStatus env, req_level1 = None, req_level2 = None,
                req_level3 = Some \<lparr>l3_passport = passport, l3_expirationDate = expirationDate,
                                   l3_attachments = attachments\<rparr>,
                req_level4 = None\<rparr>])"
proof (cases "pendingRequest user ''level-3'' s")
  case None
  then show ?thesis
    by (simp add: pendingRequest_find upsertLevel3Request_def requestFindOne_def
        requestCreate_def Let_def)
next
  case (Some r)
  then show ?thesis
    using map_save_eq [OF d pendingRequest_mem [OF Some]]
    by (simp add: pendingRequest_find upsertLevel3Request_def requestFindOne_def
        requestSave_def Let_def)
qed

lemma upsertLevel4Request_writes:
  assumes d: "distinct (map req_id (requests s))"
  shows "fst (upsertLevel4Request env user
                (VerificationRequestLevel4Model country state city zipCode addressLine1
                   addressLine2 attachments) s) = Inr ()
     \<and> (\<forall>r. pendingRequest user ''level-4'' s = Some r \<longrightarrow>
          requests (snd (upsertLevel4Request env user
                           (VerificationRequestLevel4Model country state city zipCode
                              addressLine1 addressLine2 attachments) s))
            = map (\<lambda>x. if x = r
                        then r\<lparr>req_level4 := Some
                               \<lparr>l4_country = country, l4_state = state, l4_city = city,
                                l4_zip = zipCode, l4_addressLine1 = addressLine1,
                                l4_addressLine2 = addressLine2,
                                l4_attachments = attachments\<rparr>\<rparr>
                        else x) (requests s))
     \<and> (pendingRequest user ''level-4'' s = None \<longrightarrow>
          requests (snd (upsertLevel4Request env user
                           (VerificationRequestLevel4Model country state city zipCode
                              addressLine1 addressLine2 attachments) s))
            = requests s @
              [\<lparr>req_id = nextId s, req_user = user_id user, req_level = ''level-4'',
                req_status = defaultStatus env, req_level1 = None, req_level2 = None,
                req_level3 = None,
                req_level4 = Some \<lparr>l4_country = country, l4_state = state, l4_city = city,
                                   l4_zip = zipCode, l4_addressLine1 = addressLine1,
                                   l4_addressLine2 = addressLine2,
                                   l4_attachments = attachments\<rparr>\<rparr>])"
proof (cases "pendingRequest user ''level-4'' s")
  case None
  then show ?thesis
    by (simp add: pendingRequest_find upsertLevel4Request_def requestFindOne_def
        requestCreate_def Let_def)
next
  case (Some r)
  then show ?thesis
    using map_save_eq [OF d pendingRequest_mem [OF Some]]
    by (simp add: pendingRequest_find upsertLevel4Request_def requestFindOne_def
        requestSave_def Let_def)
qed

lemma upsertLevel2Request_writes:
  assumes d: "distinct (map req_id (requests s))"
  shows "(\<forall>r old. pendingRequest user ''level-2'' s = Some r \<and> req_level2 r = Some old \<longrightarrow>
          requests (snd (upsertLevel2Request env user
                           (VerificationRequestLevel2Model email phone) s))
            = map (\<lambda>x. if x = r
                        then r\<lparr>req_level2 := Some
                               \<lparr>l2_email = email, l2_phone = phone,
                                l2_isEmailConfirmed =
                                  (email = l2_email old \<and> l2_isEmailConfirmed old),
                                l2_isPhoneConfirmed =
                                  (phone = l2_phone old \<and> l2_isPhoneConfirmed old),
                                l2_validationComment = None, l2_isValid = False\<rparr>\<rparr>
                        else x) (requests s))
     \<and> (\<forall>contact. pendingRequest user ''level-2'' s = None \<and> user_level2 user = Some contact
          \<longrightarrow>
          requests (snd (upsertLevel2Request env user
                           (VerificationRequestLevel2Model email phone) s))
            = requests s @
              [\<lparr>req_id = nextId s, req_user = user_id user, req_level = ''level-2'',
                req_status = defaultStatus env, req_level1 = None,
                req_level2 = Some
                  \<lparr>l2_email = email, l2_phone = phone,
                   l2_isEmailConfirmed = (Some email = contact_email contact),
                   l2_isPhoneConfirmed = (Some phone = contact_phone contact),
                   l2_validationComment = defaultComment env,
                   l2_isValid = defaultIsValid env\<rparr>,
                req_level3 = None, req_level4 = None\<rparr>])"
proof (intro conjI allI impI; elim conjE)
  fix r old
  assume p: "pendingRequest user ''level-2'' s = Some r" and l: "req_level2 r = Some old"
  show "requests (snd (upsertLevel2Request env user
                           (VerificationRequestLevel2Model email phone) s))
            = map (\<lambda>x. if x = r
                        then r\<lparr>req_level2 := Some
                               \<lparr>l2_email = email, l2_phone = phone,
                                l2_isEmailConfirmed =
                                  (email = l2_email old \<and> l2_isEmailConfirmed old),
                                l2_isPhoneConfirmed =
                                  (phone = l2_phone old \<and> l2_isPhoneConfirmed old),
                                l2_validationComment = None, l2_isValid = False\<rparr>\<rparr>
                        else x) (requests s)"
    using map_save_eq [OF d pendingRequest_mem [OF p]]
    by (simp add: requests_upsertLevel2Request upsertLevel2_found [OF p l] Let_def
        requestSave_def)
next
  fix contact
  assume p: "pendingRequest user ''level-2'' s = None" and c: "user_level2 user = Some contact"
  show "requests (snd (upsertLevel2Request env user
                           (VerificationRequestLevel2Model email phone) s))
            = requests s @
              [\<lparr>req_id = nextId s, req_user = user_id user, req_level = ''level-2'',
                req_status = defaultStatus env, req_level1 = None,
                req_level2 = Some
                  \<lparr>l2_email = email, l2_phone = phone,
                   l2_isEmailConfirmed = (Some email = contact_email contact),
                   l2_isPhoneConfirmed = (Some phone = contact_phone contact),
                   l2_validationComment = defaultComment env,
                   l2_isValid = defaultIsValid env\<rparr>,
                req_level3 = None, req_level4 = None\<rparr>]"
    by (simp add: requests_upsertLevel2Request upsertLevel2_new [OF p c] Let_def)
qed

text \<open>
  C1. Starting from a store with at most one "created" request per (account, level),
  each of \<open>upsertLevel1Request\<close> .. \<open>upsertLevel4Request\<close> keeps it so, whatever the
  request model and the outcome, and the ids stay distinct and below \<open>nextId\<close>, so that
  the statement applies again to the store that results. With the request model of its
  level, an operation that finds a "created" request of the account and level rewrites
  that one request in place, with the submitted fields, and leaves every other request
  as it is; one that finds none appends exactly one new request of the account and
  level with the submitted fields. The operations of levels 1, 3 and 4 then return
  normally; for level 2 the request is written before the triggers run, whatever they
  do, when the pending request has its level-2 data or, with none pending, the account
  has its \<open>level2\<close> field.
\<close>

theorem submit_keeps_one_created:
  assumes ids: "fresh_ids req_id (requests s) (nextId s)" and inv: "oneCreated (requests s)"
  shows
   "(upserted user ''level-1'' s (upsertLevel1Request env user m s)
       \<and> upserted user ''level-2'' s (upsertLevel2Request env user m s)
       \<and> upserted user ''level-3'' s (upsertLevel3Request env user m s)
       \<and> upserted user ''level-4'' s (upsertLevel4Request env user m s)
       \<and> (\<forall>op \<in> {upsertLevel1Request, upsertLevel2Request, upsertLevel3Request,
                    upsertLevel4Request}.
            fresh_ids req_id (requests (snd (op env user m s))) (nextId (snd (op env user m s)))))
    \<and> (fst (upsertLevel1Request env user
                (VerificationRequestLevel1Model userName birthDate avatar) s) = Inr ()
     \<and> (\<forall>r. pendingRequest user ''level-1'' s = Some r \<longrightarrow>
          requests (snd (upsertLevel1Request env user
                           (VerificationRequestLevel1Model userName birthDate avatar) s))
            = map (\<lambda>x. if x = r
                        then r\<lparr>req_level1 := Some
                               \<lparr>l1_userName = userName, l1_birthDate = birthDate,
                                l1_avatar = avatar, l1_validationComment = None,
                                l1_isValid = False\<rparr>\<rparr>
                        else x) (requests s))
     \<and> (pendingRequest user ''level-1'' s = None \<longrightarrow>
          requests (snd (upsertLevel1Request env user
                           (VerificationRequestLevel1Model userName birthDate avatar) s))
            = requests s @
              [\<lparr>req_id = nextId s, req_user = user_id user, req_level = ''level-1'',
                req_status = defaultStatus env,
                req_level1 = Some \<lparr>l1_userName = userName, l1_birthDate = birthDate,
                                   l1_avatar = avatar,
                                   l1_validationComment = defaultComment env,
                                   l1_isValid = defaultIsValid env\<rparr>,
                req_level2 = None, req_level3 = None, req_level4 = None\<rparr>]))
    \<and> ((\<forall>r old. pendingRequest user ''level-2'' s = Some r \<and> req_level2 r = Some old \<longrightarrow>
          requests (snd (upsertLevel2Request env user
                           (VerificationRequestLevel2Model email phone) s))
            = map (\<lambda>x. if x = r
                        then r\<lparr>req_level2 := Some
                               \<lparr>l2_email = email, l2_phone = phone,
                                l2_isEmailConfirmed =
                                  (email = l2_email old \<and> l2_isEmailConfirmed old),
                                l2_isPhoneConfirmed =
                                  (phone = l2_phone old \<and> l2_isPhoneConfirmed old),
                                l2_validationComment = None, l2_isValid = False\<rparr>\<rparr>
                        else x) (requests s))
     \<and> (\<forall>contact. pendingRequest user ''level-2'' s = None \<and> user_level2 user = Some contact
          \<longrightarrow>
          requests (snd (upsertLevel2Request env user
                           (VerificationRequestLevel2Model email phone) s))
            = requests s @
              [\<lparr>req_id = nextId s, req_user = user_id user, req_level = ''level-2'',
                req_status = defaultStatus env, req_level1 = None,
                req_level2 = Some
                  \<lparr>l2_email = email, l2_phone = phone,
                   l2_isEmailConfirmed = (Some email = contact_email contact),
                   l2_isPhoneConfirmed = (Some phone = contact_phone contact),
                   l2_validationComment = defaultComment env,
                   l2_isValid = defaultIsValid env\<rparr>,
                req_level3 = None, req_level4 = None\<rparr>]))
    \<and> (fst (upsertLevel3Request env user
                (VerificationRequestLevel3Model passport expirationDate attachments) s) = Inr ()
     \<and> (\<forall>r. pendingRequest user ''level-3'' s = Some r \<longrightarrow>
          requests (snd (upsertLevel3Request env user
                           (VerificationRequestLevel3Model passport expirationDate attachments) s))
            = map (\<lambda>x. if x = r
                        then r\<lparr>req_level3 := Some
                               \<lparr>l3_passport = passport, l3_expirationDate = expirationDate,
                                l3_attachments = attachments\<rparr>\<rparr>
                        else x) (requests s))
     \<and> (pendingRequest user ''level-3'' s = None \<longrightarrow>
          requests (snd (upsertLevel3Request env user
                           (VerificationRequestLevel3Model passport expirationDate attachments) s))
            = requests s @
              [\<lparr>req_id = nextId s, req_user = user_id user, req_level = ''level-3'',
                req_status = defaultStatus env, req_level1 = None, req_level2 = None,
                req_level3 = Some \<lparr>l3_passport = passport, l3_expirationDate = expirationDate,
                                   l3_attachments = attachments\<rparr>,
                req_level4 = None\<rparr>]))
    \<and> (fst (upsertLevel4Request env user
                (VerificationRequestLevel4Model country state city zipCode addressLineA
                   addressLineB documents) s) = Inr ()
     \<and> (\<forall>r. pendingRequest user ''level-4'' s = Some r \<longrightarrow>
          requests (snd (upsertLevel4Request env user
                           (VerificationRequestLevel4Model country state city zipCode
                              addressLineA addressLineB documents) s))
            = map (\<lambda>x. if x = r
                        then r\<lparr>req_level4 := Some
                               \<lparr>l4_country = country, l4_state = state, l4_city = city,
                                l4_zip = zipCode, l4_addressLine1 = addressLineA,
                                l4_addressLine2 = addressLineB,
                                l4_attachments = documents\<rparr>\<rparr>
                        else x) (requests s))
     \<and> (pendingRequest user ''level-4'' s = None \<longrightarrow>
          requests (snd (upsertLevel4Request env user
                           (VerificationRequestLevel4Model country state city zipCode
                              addressLineA addressLineB documents) s))
            = requests s @
              [\<lparr>req_id = nextId s, req_user = user_id user, req_level = ''level-4'',
                req_status = defaultStatus env, req_level1 = None, req_level2 = None,
                req_level3 = None,
                req_level4 = Some \<lparr>l4_country = country, l4_state = state, l4_city = city,
                                   l4_zip = zipCode, l4_addressLine1 = addressLineA,
                                   l4_addressLine2 = addressLineB,
                                   l4_attachments = documents\<rparr>\<rparr>]))"
proof -
  have d: "distinct (map req_id (requests s))"
    using ids by (simp add: fresh_ids_def)
  have a: "upserted user ''level-1'' s (upsertLevel1Request env user m s)
       \<and> upserted user ''level-2'' s (upsertLevel2Request env user m s)
       \<and> upserted user ''level-3'' s (upsertLevel3Request env user m s)
       \<and> upserted user ''level-4'' s (upsertLevel4Request env user m s)
       \<and> (\<forall>op \<in> {upsertLevel1Request, upsertLevel2Request, upsertLevel3Request,
                    upsertLevel4Request}.
            fresh_ids req_id (requests (snd (op env user m s))) (nextId (snd (op env user m s))))"
    using upsertLevel1Request_upserted [OF d inv] upsertLevel2Request_upserted [OF d inv]
      upsertLevel3Request_upserted [OF d inv] upsertLevel4Request_upserted [OF d inv]
      fresh_upsertLevel1Request [OF ids] fresh_upsertLevel2Request [OF ids]
      fresh_upsertLevel3Request [OF ids] fresh_upsertLevel4Request [OF ids]
    by simp
  show ?thesis
    by (rule conjI [OF a conjI [OF upsertLevel1Request_writes [OF d]
          conjI [OF upsertLevel2Request_writes [OF d]
            conjI [OF upsertLevel3Request_writes [OF d] upsertLevel4Request_writes [OF d]]]]])
qed

lemma store1_eq: "store1 = \<lparr>users = [alice],
             signatures = [\<lparr>sig_id = 1, sig_user = 0, sig_type = ''ethereum-address'',
                            sig_value = ''0xabc''\<rparr>],
             tokens = [\<lparr>tok_id = 2, tok_user = 0, tok_purpose = ''login'',
                        tok_token = ''t0''\<rparr>],
             checks = [], requests = [\<lparr>req_id = 3, req_user = 0, req_level = ''level-1'', req_status = ''created'',
                req_level1 = Some \<lparr>l1_userName = ''Alice'', l1_birthDate = ''1990-01-01'', l1_avatar = ''avatar-1'',
                   l1_validationComment = None, l1_isValid = False\<rparr>, req_level2 = None, req_level3 = None, req_level4 = None\<rparr>], nextId = 4, calls = [RequestFindOne ''level-1'', RequestCreate ''level-1'']\<rparr>"
  by (simp add: store1_def store0_def env0_def alice_def level1Model_def upsertLevel1Request_def
       requestFindOne_def requestCreate_def called_def Let_def)

section \<open>IdentityLinkRegistry: \<open>requireSignature\<close>\<close>


lemma find_none_all: "list_all (\<lambda>x. \<not> P x) xs \<Longrightarrow> find P xs = None"
  by (induction xs) auto

text \<open>
  C7. \<open>requireSignature\<close> is idempotent: the second of two calls with the same (type,
  value) returns what the first returned, a signature with the same account attached,
  and creates nothing. When no signature of (type, value) was there before the first
  call, the first call creates one account, named \<open>type:value\<close>, and one signature
  bound to it, so that across the two calls exactly one of each is created.
\<close>

theorem requireSignature_idempotent:
  assumes sigs: "fresh_ids sig_id (signatures s) (nextId s)"
    and usrs: "fresh_ids user_id (users s) (nextId s)"
  shows "fst (requireSignature env type value (snd (requireSignature env type value s)))
           = fst (requireSignature env type value s)
       \<and> fst (requireSignature env type value s) \<noteq> None
       \<and> users (snd (requireSignature env type value (snd (requireSignature env type value s))))
           = users (snd (requireSignature env type value s))
       \<and> signatures (snd (requireSignature env type value (snd (requireSignature env type value s))))
           = signatures (snd (requireSignature env type value s))
       \<and> (find (\<lambda>g. sig_value g = value \<and> sig_type g = type) (signatures s) = None \<longrightarrow>
            (\<exists>g u. fst (requireSignature env type value s) = Some (g, Some u)
                \<and> sig_type g = type \<and> sig_value g = value \<and> sig_user g = user_id u
                \<and> user_name u = type @ '':'' @ value
                \<and> users (snd (requireSignature env type value (snd (requireSignature env type value s))))
                    = users s @ [u]
                \<and> signatures (snd (requireSignature env type value (snd (requireSignature env type value s))))
                    = signatures s @ [g]))"
proof (cases "find (\<lambda>g. sig_value g = value \<and> sig_type g = type) (signatures s)")
  case (Some g)
  then show ?thesis
    by (simp add: requireSignature_def signatureFindOne_def populateUser_def)
next
  case None
  have a: "find (\<lambda>x. sig_id x = Suc (nextId s)) (signatures s) = None"
    using sigs by (intro find_none_all) (auto simp: fresh_ids_def list_all_iff)
  have b: "find (\<lambda>x. user_id x = nextId s) (users s) = None"
    using usrs by (intro find_none_all) (auto simp: fresh_ids_def list_all_iff)
  show ?thesis
    using None a b
    by (simp add: requireSignature_def signatureFindOne_def populateUser_def userCreate_def
        signatureCreate_def find_app Let_def)
qed

theorem requireSignature_idempotent_witness:
  "fresh_ids sig_id (signatures store0) (nextId store0)
   \<and> fresh_ids user_id (users store0) (nextId store0)
   \<and> find (\<lambda>g. sig_value g = ''0xdef'' \<and> sig_type g = ''ethereum-address'')
        (signatures store0) = None
   \<and> fst (requireSignature env0 ''ethereum-address'' ''0xdef''
             (snd (requireSignature env0 ''ethereum-address'' ''0xdef'' store0)))
       = fst (requireSignature env0 ''ethereum-address'' ''0xdef'' store0)
   \<and> length (users (snd (requireSignature env0 ''ethereum-address'' ''0xdef''
                      (snd (requireSignature env0 ''ethereum-address'' ''0xdef'' store0))))) = 2
   \<and> length (signatures (snd (requireSignature env0 ''ethereum-address'' ''0xdef''
                      (snd (requireSignature env0 ''ethereum-address'' ''0xdef'' store0))))) = 2"
proof -
  have h1: "fresh_ids sig_id (signatures store0) (nextId store0)"
    and h2: "fresh_ids user_id (users store0) (nextId store0)"
    by (simp_all add: fresh_ids_def store0_def alice_def)
  have h3: "find (\<lambda>g. sig_value g = ''0xdef'' \<and> sig_type g = ''ethereum-address'')
              (signatures store0) = None"
    by (simp add: store0_def)
  have l: "length (users store0) = 1" "length (signatures store0) = 1"
    by (simp_all add: store0_def)
  note r = requireSignature_idempotent [OF h1 h2, of env0 "''ethereum-address''" "''0xdef''"]
  from r h3 obtain g u where
    a: "users (snd (requireSignature env0 ''ethereum-address'' ''0xdef''
                 (snd (requireSignature env0 ''ethereum-address'' ''0xdef'' store0)))) = users store0 @ [u]"
    and b: "signatures (snd (requireSignature env0 ''ethereum-address'' ''0xdef''
                 (snd (requireSignature env0 ''ethereum-address'' ''0xdef'' store0))))
              = signatures store0 @ [g]"
    by blast
  from r have c: "fst (requireSignature env0 ''ethereum-address'' ''0xdef''
             (snd (requireSignature env0 ''ethereum-address'' ''0xdef'' store0)))
       = fst (requireSignature env0 ''ethereum-address'' ''0xdef'' store0)"
    by blast
  show ?thesis
    using h1 h2 h3 c l by (simp add: a b)
qed

section \<open>ConfirmationProcessor: the blocks of \<open>confirmLevel2Request\<close>\<close>


lemma confirmEmail_absent:
  "\<not> truthy emailCode \<Longrightarrow> confirmEmail user emailCode r s = (Inr (r, False, False), s)"
  by (simp add: confirmEmail_def)

lemma confirmEmail_wrong:
  assumes "truthy emailCode" "req_level2 r = Some l2"
    "find (\<lambda>c. chk_user c = user_id user \<and> chk_type c = ''confirm-email''
                \<and> chk_payload c = l2_email l2 \<and> chk_check c = the emailCode) (checks s) = None"
  shows "confirmEmail user emailCode r s
           = (Inr (r, True, False), called (CheckFindOne ''confirm-email'') s)"
  using assms by (simp add: confirmEmail_def checkFindOne_def)

lemma confirmEmail_right:
  assumes "truthy emailCode" "req_level2 r = Some l2"
    "find (\<lambda>c. chk_user c = user_id user \<and> chk_type c = ''confirm-email''
                \<and> chk_payload c = l2_email l2 \<and> chk_check c = the emailCode) (checks s) = Some c"
  shows "confirmEmail user emailCode r s
           = (Inr (r\<lparr>req_level2 := Some (l2\<lparr>l2_isEmailConfirmed := True\<rparr>)\<rparr>, True, True),
              called (CheckRemove ''confirm-email'')
                (called (CheckFindOne ''confirm-email'') s
                   \<lparr>checks := filter (\<lambda>x. chk_id x \<noteq> chk_id c) (checks s)\<rparr>))"
  using assms find_SomeD [OF assms(3)]
  by (simp add: confirmEmail_def checkFindOne_def checkRemove_def called_def)

lemma confirmPhone_absent:
  "\<not> truthy phoneCode \<Longrightarrow> confirmPhone user phoneCode r s = (Inr (r, False, False), s)"
  by (simp add: confirmPhone_def)

lemma confirmPhone_wrong:
  assumes "truthy phoneCode" "req_level2 r = Some l2"
    "find (\<lambda>c. chk_user c = user_id user \<and> chk_type c = ''confirm-phone''
                \<and> chk_payload c = l2_phone l2 \<and> chk_check c = the phoneCode) (checks s) = None"
  shows "confirmPhone user phoneCode r s
           = (Inr (r, True, False), called (CheckFindOne ''confirm-phone'') s)"
  using assms by (simp add: confirmPhone_def checkFindOne_def)

lemma confirmPhone_right:
  assumes "truthy phoneCode" "req_level2 r = Some l2"
    "find (\<lambda>c. chk_user c = user_id user \<and> chk_type c = ''confirm-phone''
                \<and> chk_payload c = l2_phone l2 \<and> chk_check c = the phoneCode) (checks s) = Some c"
  shows "confirmPhone user phoneCode r s
           = (Inr (r\<lparr>req_level2 := Some (l2\<lparr>l2_isPhoneConfirmed := True\<rparr>)\<rparr>, True, True),
              called (CheckRemove ''confirm-phone'')
                (called (CheckFindOne ''confirm-phone'') s
                   \<lparr>checks := filter (\<lambda>x. chk_id x \<noteq> chk_id c) (checks s)\<rparr>))"
  using assms find_SomeD [OF assms(3)]
  by (simp add: confirmPhone_def checkFindOne_def checkRemove_def called_def)

lemma confirmLevel2Request_pending:
  assumes "pendingRequest user ''level-2'' s = Some r"
  shows "confirmLevel2Request user (ConfirmationRequestLevel2Model emailCode phoneCode) s =
     (case confirmEmail user emailCode r (called (RequestFindOne ''level-2'') s) of
        (Inl e, s2) \<Rightarrow> (Inl e, s2)
      | (Inr (request1, emailTried, emailVerified), s2) \<Rightarrow>
          (case confirmPhone user phoneCode request1 s2 of
             (Inl e, s3) \<Rightarrow> (Inl e, s3)
           | (Inr (request2, phoneTried, phoneVerified), s3) \<Rightarrow>
               (Inr \<lparr>isEmailTried = emailTried, isEmailVerified = emailVerified,
                     isPhoneTried = phoneTried, isPhoneVerified = phoneVerified\<rparr>,
                if phoneVerified \<or> emailVerified then requestSave request2 s3 else s3)))"
  using assms by (simp add: confirmLevel2Request_def pendingRequest_def requestFindOne_def)

lemma confirmLevel2Request_no_pending:
  assumes "pendingRequest user ''level-2'' s = None"
  shows "confirmLevel2Request user (ConfirmationRequestLevel2Model emailCode phoneCode) s =
     (Inl AssertionError, called (RequestFindOne ''level-2'') s)"
  using assms by (simp add: confirmLevel2Request_def pendingRequest_def requestFindOne_def)

lemma made_called [simp]: "made c (called d s) = made c s + (if d = c then 1 else 0)"
  by (simp add: made_def called_def)

lemma made_update [simp]:
  "made c (s\<lparr>requests := rs\<rparr>) = made c s" "made c (s\<lparr>checks := cs\<rparr>) = made c s"
  "made c (s\<lparr>nextId := n\<rparr>) = made c s"
  "made c (s\<lparr>calls := l\<rparr>) = count_list l c"
  by (simp_all add: made_def)

lemma made_confirmEmail:
  assumes "confirmEmail user code r s = (x, s')"
    and "c \<noteq> CheckFindOne ''confirm-email''" "c \<noteq> CheckRemove ''confirm-email''"
  shows "made c s' = made c s"
  using assms
  by (auto simp: confirmEmail_def checkFindOne_def checkRemove_def made_def called_def
      split: if_splits option.splits dest!: find_SomeD)

lemma made_confirmPhone:
  assumes "confirmPhone user code r s = (x, s')"
    and "c \<noteq> CheckFindOne ''confirm-phone''" "c \<noteq> CheckRemove ''confirm-phone''"
  shows "made c s' = made c s"
  using assms
  by (auto simp: confirmPhone_def checkFindOne_def checkRemove_def made_def called_def
      split: if_splits option.splits dest!: find_SomeD)

lemma made_requestSave [simp]:
  "made c (requestSave r s) = made c s + (if RequestSave (req_level r) = c then 1 else 0)"
  by (simp add: requestSave_def)

lemma made_confirmLevel2Request_email:
  assumes "\<not> truthy emailCode"
    and c: "c = CheckFindOne ''confirm-email'' \<or> c = CheckRemove ''confirm-email''"
  shows "made c (snd (confirmLevel2Request user
                        (ConfirmationRequestLevel2Model emailCode phoneCode) s)) = made c s"
proof (cases "pendingRequest user ''level-2'' s")
  case None
  then show ?thesis
    using c by (auto simp: confirmLevel2Request_no_pending)
next
  case (Some r)
  show ?thesis
    using c assms(1)
    by (auto simp: confirmLevel2Request_pending [OF Some] confirmEmail_absent
        split: prod.splits sum.splits dest!: made_confirmPhone [where c = c])
qed

lemma made_confirmLevel2Request_phone:
  assumes "\<not> truthy phoneCode"
    and c: "c = CheckFindOne ''confirm-phone'' \<or> c = CheckRemove ''confirm-phone''"
  shows "made c (snd (confirmLevel2Request user
                        (ConfirmationRequestLevel2Model emailCode phoneCode) s)) = made c s"
proof (cases "pendingRequest user ''level-2'' s")
  case None
  then show ?thesis
    using c by (auto simp: confirmLevel2Request_no_pending)
next
  case (Some r)
  show ?thesis
    using c assms(1)
    by (auto simp: confirmLevel2Request_pending [OF Some] confirmPhone_absent
        split: prod.splits sum.splits dest!: made_confirmEmail [where c = c])
qed

lemma find_map_save:
  assumes "find P rs = Some r" "P r'"
  shows "find P (map (\<lambda>x. if req_id x = req_id r then r' else x) rs) = Some r'"
  using assms by (induction rs) (auto split: if_splits)

lemma pendingRequest_requestSave:
  assumes "pendingRequest user level s = Some r"
    and "req_id r' = req_id r" "req_user r' = req_user r" "req_level r' = req_level r"
      "req_status r' = req_status r"
  shows "pendingRequest user level (requestSave r' s) = Some r'"
proof -
  have "req_user r = user_id user \<and> req_level r = level \<and> req_status r = ''created''"
    using assms(1) find_SomeD unfolding pendingRequest_find by fast
  then show ?thesis
    using assms
    by (simp add: pendingRequest_find requestSave_def find_map_save)
qed

lemma pendingRequest_frame [simp]:
  "pendingRequest user level (called c s) = pendingRequest user level s"
  "pendingRequest user level (s\<lparr>checks := cs\<rparr>) = pendingRequest user level s"
  "pendingRequest user level (s\<lparr>nextId := n\<rparr>) = pendingRequest user level s"
  "pendingRequest user level (s\<lparr>calls := l\<rparr>) = pendingRequest user level s"
  by (simp_all add: pendingRequest_find)

lemma pendingRequest_level:
  "pendingRequest user level s = Some r \<Longrightarrow>
   req_user r = user_id user \<and> req_level r = level \<and> req_status r = ''created''"
  using find_SomeD unfolding pendingRequest_find by fast

lemma find_after_remove:
  assumes "filter P cs = [c]"
  shows "find P (filter (\<lambda>x. chk_id x \<noteq> chk_id c) cs) = None"
proof -
  have "\<And>x. x \<in> set cs \<Longrightarrow> P x \<Longrightarrow> x = c"
  proof -
    fix x assume "x \<in> set cs" "P x"
    then have "x \<in> set (filter P cs)" by simp
    then show "x = c" unfolding assms by simp
  qed
  then show ?thesis
    by (auto simp: find_None_iff)
qed

lemma find_of_filter_single: "filter P cs = [c] \<Longrightarrow> find P cs = Some c"
  by (induction cs) (auto split: if_splits)

text \<open>
  C4. With a pending level-2 request and one confirm-email check that matches the
  pending email and the submitted code, \<open>confirmLevel2Request\<close> with that code and no
  phone code returns tried and verified for email and neither for phone, sets
  \<open>isEmailConfirmed\<close> on the request and saves it (the stored request carries the flag),
  and removes the check; a second call with the same code returns
  \<open>isEmailVerified: false\<close>.
\<close>

theorem confirm_email_consumes_check:
  assumes p: "pendingRequest user ''level-2'' s = Some r" and l: "req_level2 r = Some l2"
    and code: "code \<noteq> []"
    and c: "filter (\<lambda>c. chk_user c = user_id user \<and> chk_type c = ''confirm-email''
                        \<and> chk_payload c = l2_email l2 \<and> chk_check c = code) (checks s) = [c]"
  shows "\<exists>s1. confirmLevel2Request user (ConfirmationRequestLevel2Model (Some code) None) s
               = (Inr \<lparr>isEmailTried = True, isEmailVerified = True,
                       isPhoneTried = False, isPhoneVerified = False\<rparr>, s1)
          \<and> pendingRequest user ''level-2'' s1
               = Some (r\<lparr>req_level2 := Some (l2\<lparr>l2_isEmailConfirmed := True\<rparr>)\<rparr>)
          \<and> made (RequestSave ''level-2'') s1 = Suc (made (RequestSave ''level-2'') s)
          \<and> checks s1 = filter (\<lambda>x. chk_id x \<noteq> chk_id c) (checks s)
          \<and> c \<notin> set (checks s1)
          \<and> fst (confirmLevel2Request user (ConfirmationRequestLevel2Model (Some code) None) s1)
               = Inr \<lparr>isEmailTried = True, isEmailVerified = False,
                      isPhoneTried = False, isPhoneVerified = False\<rparr>"
proof -
  let ?r' = "r\<lparr>req_level2 := Some (l2\<lparr>l2_isEmailConfirmed := True\<rparr>)\<rparr>"
  let ?s1 = "requestSave ?r'
               (called (CheckRemove ''confirm-email'')
                  (called (CheckFindOne ''confirm-email'') (called (RequestFindOne ''level-2'') s)
                     \<lparr>checks := filter (\<lambda>x. chk_id x \<noteq> chk_id c) (checks s)\<rparr>))"
  have t: "truthy (Some code)" "\<not> truthy None"
    using code by (simp_all add: truthy_def)
  have f: "find (\<lambda>c. chk_user c = user_id user \<and> chk_type c = ''confirm-email''
                   \<and> chk_payload c = l2_email l2 \<and> chk_check c = the (Some code))
             (checks (called (RequestFindOne ''level-2'') s)) = Some c"
    using find_of_filter_single [OF c] by simp
  have 1: "confirmLevel2Request user (ConfirmationRequestLevel2Model (Some code) None) s
             = (Inr \<lparr>isEmailTried = True, isEmailVerified = True,
                     isPhoneTried = False, isPhoneVerified = False\<rparr>, ?s1)"
    by (simp add: confirmLevel2Request_pending [OF p] confirmEmail_right [OF t(1) l f]
        confirmPhone_absent [OF t(2)])
  have lev: "req_level r = ''level-2''"
    using pendingRequest_level [OF p] by simp
  have 2: "pendingRequest user ''level-2'' ?s1 = Some ?r'"
    by (rule pendingRequest_requestSave) (simp_all add: p)
  have 3: "made (RequestSave ''level-2'') ?s1 = Suc (made (RequestSave ''level-2'') s)"
    by (simp add: lev)
  have 4: "checks ?s1 = filter (\<lambda>x. chk_id x \<noteq> chk_id c) (checks s)"
    by (simp add: requestSave_def)
  have 5: "c \<notin> set (checks ?s1)"
    by (simp add: 4)
  have g: "find (\<lambda>c. chk_user c = user_id user \<and> chk_type c = ''confirm-email''
                   \<and> chk_payload c = l2_email (l2\<lparr>l2_isEmailConfirmed := True\<rparr>)
                   \<and> chk_check c = the (Some code))
             (checks (called (RequestFindOne ''level-2'') ?s1)) = None"
    using find_after_remove [OF c] by (simp add: 4)
  have 6: "fst (confirmLevel2Request user (ConfirmationRequestLevel2Model (Some code) None) ?s1)
             = Inr \<lparr>isEmailTried = True, isEmailVerified = False,
                    isPhoneTried = False, isPhoneVerified = False\<rparr>"
    by (simp add: confirmLevel2Request_pending [OF 2] confirmEmail_wrong [OF t(1) _ g]
        confirmPhone_absent [OF t(2)])
  show ?thesis
    using 1 2 3 4 5 6 by blast
qed

lemma find_filter_None: "find P xs = None \<Longrightarrow> find P (filter Q xs) = None"
  by (auto simp: find_None_iff)

lemma confirmEmail_level:
  "confirmEmail user code r s = (Inr (r', t, v), s') \<Longrightarrow> req_level r' = req_level r"
  by (auto simp: confirmEmail_def checkFindOne_def split: if_splits option.splits)

lemma confirmPhone_level:
  "confirmPhone user code r s = (Inr (r', t, v), s') \<Longrightarrow> req_level r' = req_level r"
  by (auto simp: confirmPhone_def checkFindOne_def split: if_splits option.splits)

lemma confirmEmail_frame:
  assumes "confirmEmail user code r s = (Inr (r', t, v), s')"
  shows "req_level r' = req_level r \<and> made (RequestSave l) s' = made (RequestSave l) s"
  using confirmEmail_level [OF assms] made_confirmEmail [OF assms, of "RequestSave l"] by simp

lemma confirmPhone_frame:
  assumes "confirmPhone user code r s = (Inr (r', t, v), s')"
  shows "req_level r' = req_level r \<and> made (RequestSave l) s' = made (RequestSave l) s"
  using confirmPhone_level [OF assms] made_confirmPhone [OF assms, of "RequestSave l"] by simp

lemma confirmLevel2Request_saves:
  assumes "fst (confirmLevel2Request user (ConfirmationRequestLevel2Model emailCode phoneCode) s)
             = Inr res"
  shows "made (RequestSave ''level-2'')
           (snd (confirmLevel2Request user (ConfirmationRequestLevel2Model emailCode phoneCode) s))
         = made (RequestSave ''level-2'') s
           + (if isEmailVerified res \<or> isPhoneVerified res then 1 else 0)"
proof (cases "pendingRequest user ''level-2'' s")
  case None
  then show ?thesis
    using assms by (simp add: confirmLevel2Request_no_pending)
next
  case (Some r)
  have lev: "req_level r = ''level-2''"
    using pendingRequest_level [OF Some] by simp
  obtain x1 s2 where e: "confirmEmail user emailCode r (called (RequestFindOne ''level-2'') s)
                           = (x1, s2)"
    by fastforce
  show ?thesis
  proof (cases x1)
    case (Inl err)
    then show ?thesis
      using assms e by (simp add: confirmLevel2Request_pending [OF Some])
  next
    case (Inr y)
    obtain r1 et ev where y: "y = (r1, et, ev)"
      by (cases y) auto
    note e1 = e [unfolded Inr y]
    obtain x2 s3 where ph: "confirmPhone user phoneCode r1 s2 = (x2, s3)"
      by fastforce
    show ?thesis
    proof (cases x2)
      case (Inl err)
      then show ?thesis
        using assms e1 ph by (simp add: confirmLevel2Request_pending [OF Some])
    next
      case (Inr z)
      obtain r2 pt pv where z: "z = (r2, pt, pv)"
        by (cases z) auto
      note ph1 = ph [unfolded Inr z]
      have "req_level r2 = ''level-2''"
        and "made (RequestSave ''level-2'') s3 = made (RequestSave ''level-2'') s"
        using confirmEmail_frame [OF e1, of "''level-2''"]
          confirmPhone_frame [OF ph1, of "''level-2''"] lev by simp_all
      then show ?thesis
        using assms e1 ph1 by (auto simp: confirmLevel2Request_pending [OF Some])
    qed
  qed
qed


lemma confirm_unverified:
  assumes p: "pendingRequest user ''level-2'' s = Some r" and l: "req_level2 r = Some l2"
    and ew: "\<not> truthy emailCode \<or>
       find (\<lambda>c. chk_user c = user_id user \<and> chk_type c = ''confirm-email''
                \<and> chk_payload c = l2_email l2 \<and> chk_check c = the emailCode) (checks s) = None"
    and pw: "\<not> truthy phoneCode \<or>
       find (\<lambda>c. chk_user c = user_id user \<and> chk_type c = ''confirm-phone''
                \<and> chk_payload c = l2_phone l2 \<and> chk_check c = the phoneCode) (checks s) = None"
  shows "confirmLevel2Request user (ConfirmationRequestLevel2Model emailCode phoneCode) s
     = (Inr \<lparr>isEmailTried = truthy emailCode, isEmailVerified = False,
             isPhoneTried = truthy phoneCode, isPhoneVerified = False\<rparr>,
        (if truthy phoneCode then called (CheckFindOne ''confirm-phone'') else id)
          ((if truthy emailCode then called (CheckFindOne ''confirm-email'') else id)
             (called (RequestFindOne ''level-2'') s)))"
proof (cases "truthy emailCode")
  case e: True
  show ?thesis
  proof (cases "truthy phoneCode")
    case True
    then show ?thesis
      using ew pw e
      by (simp add: confirmLevel2Request_pending [OF p] confirmEmail_wrong [OF e l]
          confirmPhone_wrong [OF True l])
  next
    case False
    then show ?thesis
      using ew e
      by (simp add: confirmLevel2Request_pending [OF p] confirmEmail_wrong [OF e l]
          confirmPhone_absent)
  qed
next
  case e: False
  show ?thesis
  proof (cases "truthy phoneCode")
    case True
    then show ?thesis
      using pw e
      by (simp add: confirmLevel2Request_pending [OF p] confirmEmail_absent
          confirmPhone_wrong [OF True l])
  next
    case False
    then show ?thesis
      using e
      by (simp add: confirmLevel2Request_pending [OF p] confirmEmail_absent
          confirmPhone_absent)
  qed
qed

lemma confirm_email_wrong_phone_right:
  assumes p: "pendingRequest user ''level-2'' s = Some r" and l: "req_level2 r = Some l2"
    and e: "truthy emailCode"
    and ew: "find (\<lambda>c. chk_user c = user_id user \<and> chk_type c = ''confirm-email''
                \<and> chk_payload c = l2_email l2 \<and> chk_check c = the emailCode) (checks s) = None"
    and ph: "truthy phoneCode"
    and pr: "find (\<lambda>c. chk_user c = user_id user \<and> chk_type c = ''confirm-phone''
                \<and> chk_payload c = l2_phone l2 \<and> chk_check c = the phoneCode) (checks s) = Some c"
  shows "confirmLevel2Request user (ConfirmationRequestLevel2Model emailCode phoneCode) s
     = (Inr \<lparr>isEmailTried = True, isEmailVerified = False,
             isPhoneTried = True, isPhoneVerified = True\<rparr>,
        requestSave (r\<lparr>req_level2 := Some (l2\<lparr>l2_isPhoneConfirmed := True\<rparr>)\<rparr>)
          (called (CheckRemove ''confirm-phone'')
             (called (CheckFindOne ''confirm-phone'')
                (called (CheckFindOne ''confirm-email'') (called (RequestFindOne ''level-2'') s))
              \<lparr>checks := filter (\<lambda>x. chk_id x \<noteq> chk_id c) (checks s)\<rparr>)))"
  using ew pr
  by (simp add: confirmLevel2Request_pending [OF p] confirmEmail_wrong [OF e l]
      confirmPhone_right [OF ph l])

lemma confirm_email_right_phone_wrong:
  assumes p: "pendingRequest user ''level-2'' s = Some r" and l: "req_level2 r = Some l2"
    and e: "truthy emailCode"
    and er: "find (\<lambda>c. chk_user c = user_id user \<and> chk_type c = ''confirm-email''
                \<and> chk_payload c = l2_email l2 \<and> chk_check c = the emailCode) (checks s) = Some c"
    and ph: "truthy phoneCode"
    and pw: "find (\<lambda>c. chk_user c = user_id user \<and> chk_type c = ''confirm-phone''
                \<and> chk_payload c = l2_phone l2 \<and> chk_check c = the phoneCode) (checks s) = None"
  shows "confirmLevel2Request user (ConfirmationRequestLevel2Model emailCode phoneCode) s
     = (Inr \<lparr>isEmailTried = True, isEmailVerified = True,
             isPhoneTried = True, isPhoneVerified = False\<rparr>,
        requestSave (r\<lparr>req_level2 := Some (l2\<lparr>l2_isEmailConfirmed := True\<rparr>)\<rparr>)
          (called (CheckFindOne ''confirm-phone'')
             (called (CheckRemove ''confirm-email'')
                (called (CheckFindOne ''confirm-email'') (called (RequestFindOne ''level-2'') s)
                 \<lparr>checks := filter (\<lambda>x. chk_id x \<noteq> chk_id c) (checks s)\<rparr>))))"
proof -
  have "find (\<lambda>c. chk_user c = user_id user \<and> chk_type c = ''confirm-phone''
                \<and> chk_payload c = l2_phone (l2\<lparr>l2_isEmailConfirmed := True\<rparr>)
                \<and> chk_check c = the phoneCode)
          (filter (\<lambda>x. chk_id x \<noteq> chk_id c) (checks s)) = None"
    using find_filter_None [OF pw] by simp
  then show ?thesis
    using er
    by (simp add: confirmLevel2Request_pending [OF p] confirmEmail_right [OF e l]
        confirmPhone_wrong [OF ph])
qed


lemma confirm_email_wrong:
  assumes p: "pendingRequest user ''level-2'' s = Some r" and l: "req_level2 r = Some l2"
    and e: "truthy emailCode"
    and ew: "find (\<lambda>c. chk_user c = user_id user \<and> chk_type c = ''confirm-email''
                \<and> chk_payload c = l2_email l2 \<and> chk_check c = the emailCode) (checks s) = None"
  shows "\<exists>res s'. confirmLevel2Request user (ConfirmationRequestLevel2Model emailCode phoneCode) s
                     = (Inr res, s')
           \<and> isEmailTried res \<and> \<not> isEmailVerified res
           \<and> made (CheckRemove ''confirm-email'') s' = made (CheckRemove ''confirm-email'') s
           \<and> (\<exists>r' l2'. pendingRequest user ''level-2'' s' = Some r' \<and> req_level2 r' = Some l2'
                  \<and> l2_email l2' = l2_email l2
                  \<and> l2_isEmailConfirmed l2' = l2_isEmailConfirmed l2)"
proof (cases "truthy phoneCode \<and>
    find (\<lambda>c. chk_user c = user_id user \<and> chk_type c = ''confirm-phone''
                \<and> chk_payload c = l2_phone l2 \<and> chk_check c = the phoneCode) (checks s) \<noteq> None")
  case True
  then obtain c where ph: "truthy phoneCode"
    and pr: "find (\<lambda>c. chk_user c = user_id user \<and> chk_type c = ''confirm-phone''
                \<and> chk_payload c = l2_phone l2 \<and> chk_check c = the phoneCode) (checks s) = Some c"
    by auto
  let ?r' = "r\<lparr>req_level2 := Some (l2\<lparr>l2_isPhoneConfirmed := True\<rparr>)\<rparr>"
  have "pendingRequest user ''level-2''
          (requestSave ?r'
            (called (CheckRemove ''confirm-phone'')
             (called (CheckFindOne ''confirm-phone'')
                (called (CheckFindOne ''confirm-email'') (called (RequestFindOne ''level-2'') s))
              \<lparr>checks := filter (\<lambda>x. chk_id x \<noteq> chk_id c) (checks s)\<rparr>))) = Some ?r'"
    by (rule pendingRequest_requestSave) (simp_all add: p)
  then show ?thesis
    unfolding confirm_email_wrong_phone_right [OF p l e ew ph pr]
    by (simp add: pendingRequest_level [OF p])
next
  case False
  then have pw: "\<not> truthy phoneCode \<or>
       find (\<lambda>c. chk_user c = user_id user \<and> chk_type c = ''confirm-phone''
                \<and> chk_payload c = l2_phone l2 \<and> chk_check c = the phoneCode) (checks s) = None"
    by simp
  show ?thesis
    unfolding confirm_unverified [OF p l disjI2 [OF ew] pw]
    using e p l by simp
qed

lemma confirm_phone_wrong:
  assumes p: "pendingRequest user ''level-2'' s = Some r" and l: "req_level2 r = Some l2"
    and ph: "truthy phoneCode"
    and pw: "find (\<lambda>c. chk_user c = user_id user \<and> chk_type c = ''confirm-phone''
                \<and> chk_payload c = l2_phone l2 \<and> chk_check c = the phoneCode) (checks s) = None"
  shows "\<exists>res s'. confirmLevel2Request user (ConfirmationRequestLevel2Model emailCode phoneCode) s
                     = (Inr res, s')
           \<and> isPhoneTried res \<and> \<not> isPhoneVerified res
           \<and> made (CheckRemove ''confirm-phone'') s' = made (CheckRemove ''confirm-phone'') s
           \<and> (\<exists>r' l2'. pendingRequest user ''level-2'' s' = Some r' \<and> req_level2 r' = Some l2'
                  \<and> l2_phone l2' = l2_phone l2
                  \<and> l2_isPhoneConfirmed l2' = l2_isPhoneConfirmed l2)"
proof (cases "truthy emailCode \<and>
    find (\<lambda>c. chk_user c = user_id user \<and> chk_type c = ''confirm-email''
                \<and> chk_payload c = l2_email l2 \<and> chk_check c = the emailCode) (checks s) \<noteq> None")
  case True
  then obtain c where e: "truthy emailCode"
    and er: "find (\<lambda>c. chk_user c = user_id user \<and> chk_type c = ''confirm-email''
                \<and> chk_payload c = l2_email l2 \<and> chk_check c = the emailCode) (checks s) = Some c"
    by auto
  let ?r' = "r\<lparr>req_level2 := Some (l2\<lparr>l2_isEmailConfirmed := True\<rparr>)\<rparr>"
  have "pendingRequest user ''level-2''
          (requestSave ?r'
            (called (CheckFindOne ''confirm-phone'')
             (called (CheckRemove ''confirm-email'')
                (called (CheckFindOne ''confirm-email'') (called (RequestFindOne ''level-2'') s)
                 \<lparr>checks := filter (\<lambda>x. chk_id x \<noteq> chk_id c) (checks s)\<rparr>)))) = Some ?r'"
    by (rule pendingRequest_requestSave) (simp_all add: p)
  then show ?thesis
    unfolding confirm_email_right_phone_wrong [OF p l e er ph pw]
    by (simp add: pendingRequest_level [OF p])
next
  case False
  then have ew: "\<not> truthy emailCode \<or>
       find (\<lambda>c. chk_user c = user_id user \<and> chk_type c = ''confirm-email''
                \<and> chk_payload c = l2_email l2 \<and> chk_check c = the emailCode) (checks s) = None"
    by simp
  show ?thesis
    unfolding confirm_unverified [OF p l ew disjI2 [OF pw]]
    using ph p l by simp
qed

text \<open>
  C5. With a pending level-2 request, a submitted code that matches no stored check
  gives tried and not verified for its channel, no check of that channel is removed
  and the channel's contact value and confirmation flag on the stored request are as
  before. When no submitted code matches, the checks and the requests are untouched and
  nothing is saved; in every case the request is saved exactly when a code was
  verified.
\<close>

theorem confirm_wrong_code:
  assumes p: "pendingRequest user ''level-2'' s = Some r" and l: "req_level2 r = Some l2"
  shows
    "(truthy emailCode \<and>
      find (\<lambda>c. chk_user c = user_id user \<and> chk_type c = ''confirm-email''
               \<and> chk_payload c = l2_email l2 \<and> chk_check c = the emailCode) (checks s) = None
      \<longrightarrow> (\<exists>res s'. confirmLevel2Request user
                        (ConfirmationRequestLevel2Model emailCode phoneCode) s = (Inr res, s')
             \<and> isEmailTried res \<and> \<not> isEmailVerified res
             \<and> made (CheckRemove ''confirm-email'') s' = made (CheckRemove ''confirm-email'') s
             \<and> (\<exists>r' l2'. pendingRequest user ''level-2'' s' = Some r'
                    \<and> req_level2 r' = Some l2' \<and> l2_email l2' = l2_email l2
                    \<and> l2_isEmailConfirmed l2' = l2_isEmailConfirmed l2)))
   \<and> (truthy phoneCode \<and>
      find (\<lambda>c. chk_user c = user_id user \<and> chk_type c = ''confirm-phone''
               \<and> chk_payload c = l2_phone l2 \<and> chk_check c = the phoneCode) (checks s) = None
      \<longrightarrow> (\<exists>res s'. confirmLevel2Request user
                        (ConfirmationRequestLevel2Model emailCode phoneCode) s = (Inr res, s')
             \<and> isPhoneTried res \<and> \<not> isPhoneVerified res
             \<and> made (CheckRemove ''confirm-phone'') s' = made (CheckRemove ''confirm-phone'') s
             \<and> (\<exists>r' l2'. pendingRequest user ''level-2'' s' = Some r'
                    \<and> req_level2 r' = Some l2' \<and> l2_phone l2' = l2_phone l2
                    \<and> l2_isPhoneConfirmed l2' = l2_isPhoneConfirmed l2)))
   \<and> ((\<not> truthy emailCode \<or>
        find (\<lambda>c. chk_user c = user_id user \<and> chk_type c = ''confirm-email''
               \<and> chk_payload c = l2_email l2 \<and> chk_check c = the emailCode) (checks s) = None)
      \<and> (\<not> truthy phoneCode \<or>
        find (\<lambda>c. chk_user c = user_id user \<and> chk_type c = ''confirm-phone''
               \<and> chk_payload c = l2_phone l2 \<and> chk_check c = the phoneCode) (checks s) = None)
      \<longrightarrow> checks (snd (confirmLevel2Request user
                          (ConfirmationRequestLevel2Model emailCode phoneCode) s)) = checks s
        \<and> requests (snd (confirmLevel2Request user
                          (ConfirmationRequestLevel2Model emailCode phoneCode) s)) = requests s
        \<and> made (RequestSave ''level-2'')
             (snd (confirmLevel2Request user
                     (ConfirmationRequestLevel2Model emailCode phoneCode) s))
            = made (RequestSave ''level-2'') s)
   \<and> (\<forall>res. fst (confirmLevel2Request user
                    (ConfirmationRequestLevel2Model emailCode phoneCode) s) = Inr res
        \<longrightarrow> made (RequestSave ''level-2'')
              (snd (confirmLevel2Request user
                      (ConfirmationRequestLevel2Model emailCode phoneCode) s))
            = made (RequestSave ''level-2'') s
              + (if isEmailVerified res \<or> isPhoneVerified res then 1 else 0))"
proof (intro conjI impI allI)
  assume "truthy emailCode \<and>
      find (\<lambda>c. chk_user c = user_id user \<and> chk_type c = ''confirm-email''
               \<and> chk_payload c = l2_email l2 \<and> chk_check c = the emailCode) (checks s) = None"
  then show "\<exists>res s'. confirmLevel2Request user
                        (ConfirmationRequestLevel2Model emailCode phoneCode) s = (Inr res, s')
             \<and> isEmailTried res \<and> \<not> isEmailVerified res
             \<and> made (CheckRemove ''confirm-email'') s' = made (CheckRemove ''confirm-email'') s
             \<and> (\<exists>r' l2'. pendingRequest user ''level-2'' s' = Some r'
                    \<and> req_level2 r' = Some l2' \<and> l2_email l2' = l2_email l2
                    \<and> l2_isEmailConfirmed l2' = l2_isEmailConfirmed l2)"
    using confirm_email_wrong [OF p l] by blast
next
  assume "truthy phoneCode \<and>
      find (\<lambda>c. chk_user c = user_id user \<and> chk_type c = ''confirm-phone''
               \<and> chk_payload c = l2_phone l2 \<and> chk_check c = the phoneCode) (checks s) = None"
  then show "\<exists>res s'. confirmLevel2Request user
                        (ConfirmationRequestLevel2Model emailCode phoneCode) s = (Inr res, s')
             \<and> isPhoneTried res \<and> \<not> isPhoneVerified res
             \<and> made (CheckRemove ''confirm-phone'') s' = made (CheckRemove ''confirm-phone'') s
             \<and> (\<exists>r' l2'. pendingRequest user ''level-2'' s' = Some r'
                    \<and> req_level2 r' = Some l2' \<and> l2_phone l2' = l2_phone l2
                    \<and> l2_isPhoneConfirmed l2' = l2_isPhoneConfirmed l2)"
    using confirm_phone_wrong [OF p l] by blast
next
  fix res
  assume "fst (confirmLevel2Request user
                 (ConfirmationRequestLevel2Model emailCode phoneCode) s) = Inr res"
  then show "made (RequestSave ''level-2'')
              (snd (confirmLevel2Request user
                      (ConfirmationRequestLevel2Model emailCode phoneCode) s))
            = made (RequestSave ''level-2'') s
              + (if isEmailVerified res \<or> isPhoneVerified res then 1 else 0)"
    by (rule confirmLevel2Request_saves)
qed (simp_all add: confirm_unverified [OF p l])

lemma confirmEmail_returns:
  assumes "req_level2 r = Some l2"
  shows "\<exists>r' v s' l2'. confirmEmail user code r s = (Inr (r', truthy code, v), s')
           \<and> req_level2 r' = Some l2'"
  using assms by (auto simp: confirmEmail_def checkFindOne_def split: option.splits)

lemma confirmPhone_returns:
  assumes "req_level2 r = Some l2"
  shows "\<exists>r' v s' l2'. confirmPhone user code r s = (Inr (r', truthy code, v), s')
           \<and> req_level2 r' = Some l2'"
  using assms by (auto simp: confirmPhone_def checkFindOne_def split: option.splits)

lemma confirmLevel2Request_returns:
  assumes p: "pendingRequest user ''level-2'' s = Some r" and l: "req_level2 r = Some l2"
  shows "\<exists>res. fst (confirmLevel2Request user
                      (ConfirmationRequestLevel2Model emailCode phoneCode) s) = Inr res
           \<and> isEmailTried res = truthy emailCode \<and> isPhoneTried res = truthy phoneCode"
proof -
  obtain r1 ev s2 l2' where
    e: "confirmEmail user emailCode r (called (RequestFindOne ''level-2'') s)
          = (Inr (r1, truthy emailCode, ev), s2)" and l1: "req_level2 r1 = Some l2'"
    using confirmEmail_returns [OF l] by blast
  obtain r2 pv s3 l2'' where
    ph: "confirmPhone user phoneCode r1 s2 = (Inr (r2, truthy phoneCode, pv), s3)"
    using confirmPhone_returns [OF l1] by blast
  show ?thesis
    by (simp add: confirmLevel2Request_pending [OF p] e ph)
qed

lemma confirm_email_absent_not_tried:
  assumes "\<not> truthy emailCode"
    and "fst (confirmLevel2Request user
                (ConfirmationRequestLevel2Model emailCode phoneCode) s) = Inr res"
  shows "\<not> isEmailTried res"
proof (cases "pendingRequest user ''level-2'' s")
  case None
  then show ?thesis
    using assms by (simp add: confirmLevel2Request_no_pending)
next
  case (Some r)
  show ?thesis
    using assms
    by (auto simp: confirmLevel2Request_pending [OF Some] confirmEmail_absent
        split: prod.splits sum.splits)
qed

lemma confirm_phone_absent_not_tried:
  assumes "\<not> truthy phoneCode"
    and "fst (confirmLevel2Request user
                (ConfirmationRequestLevel2Model emailCode phoneCode) s) = Inr res"
  shows "\<not> isPhoneTried res"
proof (cases "pendingRequest user ''level-2'' s")
  case None
  then show ?thesis
    using assms by (simp add: confirmLevel2Request_no_pending)
next
  case (Some r)
  show ?thesis
    using assms
    by (auto simp: confirmLevel2Request_pending [OF Some] confirmPhone_absent
        split: prod.splits sum.splits)
qed

lemma confirm_both_absent:
  assumes "\<not> truthy emailCode" "\<not> truthy phoneCode" "pendingRequest user ''level-2'' s \<noteq> None"
  shows "confirmLevel2Request user (ConfirmationRequestLevel2Model emailCode phoneCode) s
         = (Inr \<lparr>isEmailTried = False, isEmailVerified = False,
                 isPhoneTried = False, isPhoneVerified = False\<rparr>,
            called (RequestFindOne ''level-2'') s)"
proof -
  obtain r where p: "pendingRequest user ''level-2'' s = Some r"
    using assms(3) by auto
  show ?thesis
    using assms
    by (simp add: confirmLevel2Request_pending [OF p] confirmEmail_absent confirmPhone_absent)
qed

text \<open>
  C10. \<open>confirmLevel2Request\<close> treats an absent or empty code as not attempted: no
  confirm-email check is looked up or removed when \<open>emailCode\<close> is falsy, a result that
  is returned has \<open>isEmailTried\<close> false, and a result is returned when the pending
  request carries its level-2 data; the same for \<open>phoneCode\<close>. When both codes are falsy
  and a request is pending, all four booleans are false and the only call made is the
  lookup of the request: nothing is written.
\<close>

theorem confirm_absent_code:
  "(\<not> truthy emailCode \<longrightarrow>
      made (CheckFindOne ''confirm-email'')
        (snd (confirmLevel2Request user (ConfirmationRequestLevel2Model emailCode phoneCode) s))
        = made (CheckFindOne ''confirm-email'') s
    \<and> made (CheckRemove ''confirm-email'')
        (snd (confirmLevel2Request user (ConfirmationRequestLevel2Model emailCode phoneCode) s))
        = made (CheckRemove ''confirm-email'') s
    \<and> (\<forall>res. fst (confirmLevel2Request user
                     (ConfirmationRequestLevel2Model emailCode phoneCode) s) = Inr res
          \<longrightarrow> \<not> isEmailTried res)
    \<and> (\<forall>r. pendingRequest user ''level-2'' s = Some r \<and> req_level2 r \<noteq> None
          \<longrightarrow> (\<exists>res. fst (confirmLevel2Request user
                     (ConfirmationRequestLevel2Model emailCode phoneCode) s) = Inr res)))
   \<and> (\<not> truthy phoneCode \<longrightarrow>
      made (CheckFindOne ''confirm-phone'')
        (snd (confirmLevel2Request user (ConfirmationRequestLevel2Model emailCode phoneCode) s))
        = made (CheckFindOne ''confirm-phone'') s
    \<and> made (CheckRemove ''confirm-phone'')
        (snd (confirmLevel2Request user (ConfirmationRequestLevel2Model emailCode phoneCode) s))
        = made (CheckRemove ''confirm-phone'') s
    \<and> (\<forall>res. fst (confirmLevel2Request user
                     (ConfirmationRequestLevel2Model emailCode phoneCode) s) = Inr res
          \<longrightarrow> \<not> isPhoneTried res)
    \<and> (\<forall>r. pendingRequest user ''level-2'' s = Some r \<and> req_level2 r \<noteq> None
          \<longrightarrow> (\<exists>res. fst (confirmLevel2Request user
                     (ConfirmationRequestLevel2Model emailCode phoneCode) s) = Inr res)))
   \<and> (\<not> truthy emailCode \<and> \<not> truthy phoneCode \<and> pendingRequest user ''level-2'' s \<noteq> None \<longrightarrow>
        confirmLevel2Request user (ConfirmationRequestLevel2Model emailCode phoneCode) s
         = (Inr \<lparr>isEmailTried = False, isEmailVerified = False,
                 isPhoneTried = False, isPhoneVerified = False\<rparr>,
            called (RequestFindOne ''level-2'') s))"
proof -
  have ret: "\<forall>r. pendingRequest user ''level-2'' s = Some r \<and> req_level2 r \<noteq> None
          \<longrightarrow> (\<exists>res. fst (confirmLevel2Request user
                     (ConfirmationRequestLevel2Model emailCode phoneCode) s) = Inr res)"
    using confirmLevel2Request_returns by blast
  show ?thesis
    using ret
    by (simp add: made_confirmLevel2Request_email made_confirmLevel2Request_phone
        confirm_email_absent_not_tried confirm_phone_absent_not_tried confirm_both_absent
        del: not_None_eq)
qed


lemma store2_pending: "pendingRequest alice ''level-2'' store2 = Some aliceRequest"
  by (simp add: pendingRequest_find store2_def aliceRequest_def alice_def)

lemma aliceRequest_level2: "req_level2 aliceRequest = Some level2Data"
  by (simp add: aliceRequest_def)

theorem confirm_absent_code_witness:
  "\<not> truthy None \<and> \<not> truthy (Some [])
   \<and> pendingRequest alice ''level-2'' store2 = Some aliceRequest
   \<and> req_level2 aliceRequest \<noteq> None
   \<and> confirmLevel2Request alice (ConfirmationRequestLevel2Model None (Some [])) store2
       = (Inr \<lparr>isEmailTried = False, isEmailVerified = False,
               isPhoneTried = False, isPhoneVerified = False\<rparr>,
          called (RequestFindOne ''level-2'') store2)
   \<and> made (CheckFindOne ''confirm-email'')
        (snd (confirmLevel2Request alice (ConfirmationRequestLevel2Model None (Some [])) store2))
       = 0"
proof -
  have t: "\<not> truthy None" "\<not> truthy (Some [])"
    by (simp_all add: truthy_def)
  have l: "req_level2 aliceRequest \<noteq> None"
    by (simp add: aliceRequest_level2)
  have m: "made (CheckFindOne ''confirm-email'') store2 = 0"
    by (simp add: made_def store2_def)
  from confirm_absent_code
    [where emailCode = None and phoneCode = "Some []" and user = alice and s = store2]
  show ?thesis
    using t l m store2_pending by simp
qed

theorem confirm_email_consumes_check_witness:
  "pendingRequest alice ''level-2'' store2 = Some aliceRequest
   \<and> req_level2 aliceRequest = Some level2Data
   \<and> ''2222'' \<noteq> []
   \<and> filter (\<lambda>c. chk_user c = user_id alice \<and> chk_type c = ''confirm-email''
                 \<and> chk_payload c = l2_email level2Data \<and> chk_check c = ''2222'')
        (checks store2) = [emailCheck]
   \<and> fst (confirmLevel2Request alice (ConfirmationRequestLevel2Model (Some ''2222'') None) store2)
       = Inr \<lparr>isEmailTried = True, isEmailVerified = True,
              isPhoneTried = False, isPhoneVerified = False\<rparr>
   \<and> checks (snd (confirmLevel2Request alice
                    (ConfirmationRequestLevel2Model (Some ''2222'') None) store2)) = [phoneCheck]"
proof -
  have code: "''2222'' \<noteq> []"
    by simp
  have c: "filter (\<lambda>c. chk_user c = user_id alice \<and> chk_type c = ''confirm-email''
                 \<and> chk_payload c = l2_email level2Data \<and> chk_check c = ''2222'')
        (checks store2) = [emailCheck]"
    by (simp add: store2_def emailCheck_def phoneCheck_def alice_def level2Data_def)
  have f: "filter (\<lambda>x. chk_id x \<noteq> chk_id emailCheck) (checks store2) = [phoneCheck]"
    by (simp add: store2_def emailCheck_def phoneCheck_def)
  from confirm_email_consumes_check [OF store2_pending aliceRequest_level2 code c]
  obtain s1 where
    "confirmLevel2Request alice (ConfirmationRequestLevel2Model (Some ''2222'') None) store2
       = (Inr \<lparr>isEmailTried = True, isEmailVerified = True,
               isPhoneTried = False, isPhoneVerified = False\<rparr>, s1)"
    and "checks s1 = filter (\<lambda>x. chk_id x \<noteq> chk_id emailCheck) (checks store2)"
    by blast
  then show ?thesis
    using store2_pending aliceRequest_level2 c f by simp
qed

theorem confirm_wrong_code_witness:
  "pendingRequest alice ''level-2'' store2 = Some aliceRequest
   \<and> req_level2 aliceRequest = Some level2Data
   \<and> truthy (Some ''9999'')
   \<and> find (\<lambda>c. chk_user c = user_id alice \<and> chk_type c = ''confirm-email''
               \<and> chk_payload c = l2_email level2Data \<and> chk_check c = the (Some ''9999''))
        (checks store2) = None
   \<and> truthy (Some ''8888'')
   \<and> find (\<lambda>c. chk_user c = user_id alice \<and> chk_type c = ''confirm-phone''
               \<and> chk_payload c = l2_phone level2Data \<and> chk_check c = the (Some ''8888''))
        (checks store2) = None
   \<and> fst (confirmLevel2Request alice
             (ConfirmationRequestLevel2Model (Some ''9999'') (Some ''8888'')) store2)
       = Inr \<lparr>isEmailTried = True, isEmailVerified = False,
              isPhoneTried = True, isPhoneVerified = False\<rparr>
   \<and> checks (snd (confirmLevel2Request alice
                    (ConfirmationRequestLevel2Model (Some ''9999'') (Some ''8888'')) store2))
       = [phoneCheck, emailCheck]
   \<and> requests (snd (confirmLevel2Request alice
                    (ConfirmationRequestLevel2Model (Some ''9999'') (Some ''8888'')) store2))
       = [aliceRequest]
   \<and> made (RequestSave ''level-2'')
        (snd (confirmLevel2Request alice
                (ConfirmationRequestLevel2Model (Some ''9999'') (Some ''8888'')) store2)) = 0"
proof -
  have t: "truthy (Some ''9999'')" "truthy (Some ''8888'')"
    by (simp_all add: truthy_def)
  have ew: "find (\<lambda>c. chk_user c = user_id alice \<and> chk_type c = ''confirm-email''
               \<and> chk_payload c = l2_email level2Data \<and> chk_check c = the (Some ''9999''))
        (checks store2) = None"
    by (simp add: store2_def emailCheck_def phoneCheck_def)
  have pw: "find (\<lambda>c. chk_user c = user_id alice \<and> chk_type c = ''confirm-phone''
               \<and> chk_payload c = l2_phone level2Data \<and> chk_check c = the (Some ''8888''))
        (checks store2) = None"
    by (simp add: store2_def emailCheck_def phoneCheck_def)
  have d: "checks store2 = [phoneCheck, emailCheck]" "requests store2 = [aliceRequest]"
    "made (RequestSave ''level-2'') store2 = 0"
    by (simp_all add: store2_def made_def)
  note w = confirm_wrong_code [OF store2_pending aliceRequest_level2,
      where emailCode = "Some ''9999''" and phoneCode = "Some ''8888''"]
  from w t ew pw obtain res s' where
    r: "confirmLevel2Request alice
          (ConfirmationRequestLevel2Model (Some ''9999'') (Some ''8888'')) store2 = (Inr res, s')"
    and e: "isEmailTried res" "\<not> isEmailVerified res"
    by blast
  from w t ew pw obtain res' s'' where
    r': "confirmLevel2Request alice
          (ConfirmationRequestLevel2Model (Some ''9999'') (Some ''8888'')) store2 = (Inr res', s'')"
    and ph: "isPhoneTried res'" "\<not> isPhoneVerified res'"
    by blast
  have res: "res = \<lparr>isEmailTried = True, isEmailVerified = False,
              isPhoneTried = True, isPhoneVerified = False\<rparr>"
    using r r' e ph by (cases res) simp
  from w t ew pw have
    "checks (snd (confirmLevel2Request alice
                    (ConfirmationRequestLevel2Model (Some ''9999'') (Some ''8888'')) store2))
       = checks store2"
    "requests (snd (confirmLevel2Request alice
                    (ConfirmationRequestLevel2Model (Some ''9999'') (Some ''8888'')) store2))
       = requests store2"
    "made (RequestSave ''level-2'')
        (snd (confirmLevel2Request alice
                (ConfirmationRequestLevel2Model (Some ''9999'') (Some ''8888'')) store2))
       = made (RequestSave ''level-2'') store2"
    by blast+
  then show ?thesis
    using store2_pending aliceRequest_level2 t ew pw r res d by simp
qed

section \<open>OneTimeCheckIssuer: \<open>validatePhone\<close> and \<open>validateEmail\<close>\<close>


lemma validatePhone_issues:
  assumes "pendingRequest user ''level-2'' s = Some r" "req_level2 r = Some l2"
    "\<not> l2_isPhoneConfirmed l2"
  shows "validatePhone env user s =
    (Inr (),
     s\<lparr>checks := otherChecks user ''confirm-phone'' s @
          [\<lparr>chk_id = nextId s, chk_user = user_id user, chk_type = ''confirm-phone'',
            chk_payload = l2_phone l2, chk_check = newCheck env (nextId s)\<rparr>],
       nextId := Suc (nextId s),
       calls := calls s @ [RequestFindOne ''level-2'', CheckRemoveAll ''confirm-phone'',
                           CheckCreate ''confirm-phone'']\<rparr>)"
  using assms
  by (simp add: validatePhone_def pendingRequest_def requestFindOne_def checkRemoveAll_def
      checkCreate_def called_def otherChecks_def Let_def)

lemma validatePhone_illegal:
  assumes "\<not> (\<exists>r l2. pendingRequest user ''level-2'' s = Some r \<and> req_level2 r = Some l2
               \<and> \<not> l2_isPhoneConfirmed l2)"
  shows "validatePhone env user s
           = (Inl (WebError ''Illegal state'' 401), called (RequestFindOne ''level-2'') s)"
  using assms
  by (auto simp: validatePhone_def pendingRequest_def requestFindOne_def split: option.splits)

lemma validateEmail_issues:
  assumes "pendingRequest user ''level-2'' s = Some r" "req_level2 r = Some l2"
    "\<not> l2_isEmailConfirmed l2"
  shows "validateEmail env user s =
    (let m = \<lparr>msg_to = l2_email l2,
               msg_subject = fst (confirmTemplate env (baseURL env) (user_name user)
                                    (newCheck env (nextId s))),
               msg_html = snd (confirmTemplate env (baseURL env) (user_name user)
                                 (newCheck env (nextId s)))\<rparr>
     in (if sendResolves env m then Inr () else Inl SendError,
         s\<lparr>checks := otherChecks user ''confirm-email'' s @
              [\<lparr>chk_id = nextId s, chk_user = user_id user, chk_type = ''confirm-email'',
                chk_payload = l2_email l2, chk_check = newCheck env (nextId s)\<rparr>],
           nextId := Suc (nextId s),
           calls := calls s @ [RequestFindOne ''level-2'', CheckRemoveAll ''confirm-email'',
                               CheckCreate ''confirm-email'', MessageSend m]\<rparr>))"
  using assms
  by (simp add: validateEmail_def pendingRequest_def requestFindOne_def checkRemoveAll_def
      checkCreate_def called_def otherChecks_def messageSend_def Let_def split: prod.splits)

lemma validateEmail_illegal:
  assumes "\<not> (\<exists>r l2. pendingRequest user ''level-2'' s = Some r \<and> req_level2 r = Some l2
               \<and> \<not> l2_isEmailConfirmed l2)"
  shows "validateEmail env user s
           = (Inl (WebError ''Illegal state'' 401), called (RequestFindOne ''level-2'') s)"
  using assms
  by (auto simp: validateEmail_def pendingRequest_def requestFindOne_def split: option.splits)

lemma checksOf_issued:
  "checksOf user type (s\<lparr>checks := otherChecks user type s @ [c], nextId := n, calls := l\<rparr>)
     = (if chk_user c = user_id user \<and> chk_type c = type then [c] else [])"
  by (simp add: checksOf_def otherChecks_def)

lemma otherChecks_issued:
  "chk_user c = user_id user \<Longrightarrow> chk_type c = type \<Longrightarrow>
   otherChecks user type (s\<lparr>checks := otherChecks user type s @ [c], nextId := n, calls := l\<rparr>)
     = otherChecks user type s"
  by (simp add: otherChecks_def)

lemma find_conj_filter: "find (\<lambda>c. P c \<and> Q c) xs = find Q (filter P xs)"
  by (induction xs) auto

lemma find_checksOf:
  "find (\<lambda>c. chk_user c = user_id user \<and> chk_type c = type \<and> Q c) (checks s)
     = find Q (checksOf user type s)"
  using find_conj_filter [of "\<lambda>c. chk_user c = user_id user \<and> chk_type c = type" Q "checks s"]
  by (simp add: checksOf_def conj_assoc)

lemma level2Carried_pending:
  assumes "level2Carried (requests s)" "pendingRequest user ''level-2'' s = Some r"
  shows "\<exists>l2. req_level2 r = Some l2"
proof -
  have "r \<in> set (requests s)" "req_level r = ''level-2''"
    using assms(2) find_SomeD unfolding pendingRequest_find by fast+
  then show ?thesis
    using assms(1) by (auto simp: level2Carried_def list_all_iff)
qed

lemma validatePhone_IllegalState_iff:
  "(fst (validatePhone env user s) = Inl (WebError ''Illegal state'' 401))
     = (\<not> (\<exists>r l2. pendingRequest user ''level-2'' s = Some r \<and> req_level2 r = Some l2
               \<and> \<not> l2_isPhoneConfirmed l2))"
proof (cases "\<exists>r l2. pendingRequest user ''level-2'' s = Some r \<and> req_level2 r = Some l2
               \<and> \<not> l2_isPhoneConfirmed l2")
  case True
  then obtain r l2 where "pendingRequest user ''level-2'' s = Some r" "req_level2 r = Some l2"
    "\<not> l2_isPhoneConfirmed l2"
    by blast
  then show ?thesis
    using True by (simp add: validatePhone_issues)
next
  case False
  then show ?thesis
    by (simp add: validatePhone_illegal)
qed

lemma validateEmail_IllegalState_iff:
  "(fst (validateEmail env user s) = Inl (WebError ''Illegal state'' 401))
     = (\<not> (\<exists>r l2. pendingRequest user ''level-2'' s = Some r \<and> req_level2 r = Some l2
               \<and> \<not> l2_isEmailConfirmed l2))"
proof (cases "\<exists>r l2. pendingRequest user ''level-2'' s = Some r \<and> req_level2 r = Some l2
               \<and> \<not> l2_isEmailConfirmed l2")
  case True
  then obtain r l2 where "pendingRequest user ''level-2'' s = Some r" "req_level2 r = Some l2"
    "\<not> l2_isEmailConfirmed l2"
    by blast
  then show ?thesis
    using True by (simp add: validateEmail_issues Let_def)
next
  case False
  then show ?thesis
    by (simp add: validateEmail_illegal)
qed

lemma confirm_phone_only:
  assumes p: "pendingRequest user ''level-2'' s = Some r" and l: "req_level2 r = Some l2"
  shows "\<exists>res. fst (confirmLevel2Request user
                      (ConfirmationRequestLevel2Model None (Some code)) s) = Inr res
           \<and> isPhoneVerified res
               = (code \<noteq> [] \<and>
                  find (\<lambda>c. chk_payload c = l2_phone l2 \<and> chk_check c = code)
                    (checksOf user ''confirm-phone'' s) \<noteq> None)"
proof (cases "code = []")
  case True
  then show ?thesis
    by (simp add: confirmLevel2Request_pending [OF p] confirmEmail_absent confirmPhone_absent
        truthy_def)
next
  case False
  then have t: "truthy (Some code)" "\<not> truthy None"
    by (simp_all add: truthy_def)
  show ?thesis
  proof (cases "find (\<lambda>c. chk_user c = user_id user \<and> chk_type c = ''confirm-phone''
                \<and> chk_payload c = l2_phone l2 \<and> chk_check c = the (Some code))
                  (checks (called (RequestFindOne ''level-2'') s))")
    case None
    then show ?thesis
      using False find_checksOf [of user "''confirm-phone''"
          "\<lambda>c. chk_payload c = l2_phone l2 \<and> chk_check c = code" s]
      by (simp add: confirmLevel2Request_pending [OF p] confirmEmail_absent [OF t(2)]
          confirmPhone_wrong [OF t(1) l None])
  next
    case (Some c)
    then show ?thesis
      using False find_checksOf [of user "''confirm-phone''"
          "\<lambda>c. chk_payload c = l2_phone l2 \<and> chk_check c = code" s]
      by (simp add: confirmLevel2Request_pending [OF p] confirmEmail_absent [OF t(2)]
          confirmPhone_right [OF t(1) l Some])
  qed
qed

lemma confirm_email_only:
  assumes p: "pendingRequest user ''level-2'' s = Some r" and l: "req_level2 r = Some l2"
  shows "\<exists>res. fst (confirmLevel2Request user
                      (ConfirmationRequestLevel2Model (Some code) None) s) = Inr res
           \<and> isEmailVerified res
               = (code \<noteq> [] \<and>
                  find (\<lambda>c. chk_payload c = l2_email l2 \<and> chk_check c = code)
                    (checksOf user ''confirm-email'' s) \<noteq> None)"
proof (cases "code = []")
  case True
  then show ?thesis
    by (simp add: confirmLevel2Request_pending [OF p] confirmEmail_absent confirmPhone_absent
        truthy_def)
next
  case False
  then have t: "truthy (Some code)" "\<not> truthy None"
    by (simp_all add: truthy_def)
  show ?thesis
  proof (cases "find (\<lambda>c. chk_user c = user_id user \<and> chk_type c = ''confirm-email''
                \<and> chk_payload c = l2_email l2 \<and> chk_check c = the (Some code))
                  (checks (called (RequestFindOne ''level-2'') s))")
    case None
    then show ?thesis
      using False find_checksOf [of user "''confirm-email''"
          "\<lambda>c. chk_payload c = l2_email l2 \<and> chk_check c = code" s]
      by (simp add: confirmLevel2Request_pending [OF p] confirmEmail_wrong [OF t(1) l None]
          confirmPhone_absent [OF t(2)])
  next
    case (Some c)
    then show ?thesis
      using False find_checksOf [of user "''confirm-email''"
          "\<lambda>c. chk_payload c = l2_email l2 \<and> chk_check c = code" s]
      by (simp add: confirmLevel2Request_pending [OF p] confirmEmail_right [OF t(1) l Some]
          confirmPhone_absent [OF t(2)])
  qed
qed

lemma validatePhone_twice:
  assumes p: "pendingRequest user ''level-2'' s = Some r" and l: "req_level2 r = Some l2"
    and n: "\<not> l2_isPhoneConfirmed l2"
  shows "fst (validatePhone env user (snd (validatePhone env user s))) = Inr ()
     \<and> checksOf user ''confirm-phone'' (snd (validatePhone env user (snd (validatePhone env user s))))
         = [\<lparr>chk_id = Suc (nextId s), chk_user = user_id user, chk_type = ''confirm-phone'',
             chk_payload = l2_phone l2, chk_check = newCheck env (Suc (nextId s))\<rparr>]
     \<and> (\<forall>code. \<exists>res.
           fst (confirmLevel2Request user (ConfirmationRequestLevel2Model None (Some code))
                  (snd (validatePhone env user (snd (validatePhone env user s))))) = Inr res
           \<and> isPhoneVerified res = (code \<noteq> [] \<and> code = newCheck env (Suc (nextId s))))"
proof -
  define s1 where "s1 = snd (validatePhone env user s)"
  define s2 where "s2 = snd (validatePhone env user s1)"
  have s1: "s1 = s\<lparr>checks := otherChecks user ''confirm-phone'' s @
          [\<lparr>chk_id = nextId s, chk_user = user_id user, chk_type = ''confirm-phone'',
            chk_payload = l2_phone l2, chk_check = newCheck env (nextId s)\<rparr>],
       nextId := Suc (nextId s),
       calls := calls s @ [RequestFindOne ''level-2'', CheckRemoveAll ''confirm-phone'',
                           CheckCreate ''confirm-phone'']\<rparr>"
    unfolding s1_def by (simp add: validatePhone_issues [OF p l n])
  have p1: "pendingRequest user ''level-2'' s1 = Some r"
    by (simp add: s1 p)
  have n1: "nextId s1 = Suc (nextId s)"
    by (simp add: s1)
  note v2 = validatePhone_issues [OF p1 l n, of env]
  have ok: "fst (validatePhone env user s1) = Inr ()"
    by (simp add: v2)
  have s2: "s2 = s1\<lparr>checks := otherChecks user ''confirm-phone'' s1 @
          [\<lparr>chk_id = Suc (nextId s), chk_user = user_id user, chk_type = ''confirm-phone'',
            chk_payload = l2_phone l2, chk_check = newCheck env (Suc (nextId s))\<rparr>],
       nextId := Suc (nextId s1),
       calls := calls s1 @ [RequestFindOne ''level-2'', CheckRemoveAll ''confirm-phone'',
                           CheckCreate ''confirm-phone'']\<rparr>"
    unfolding s2_def by (simp add: v2 n1)
  have c2: "checksOf user ''confirm-phone'' s2
         = [\<lparr>chk_id = Suc (nextId s), chk_user = user_id user, chk_type = ''confirm-phone'',
             chk_payload = l2_phone l2, chk_check = newCheck env (Suc (nextId s))\<rparr>]"
    unfolding s2 by (simp add: checksOf_issued)
  have p2: "pendingRequest user ''level-2'' s2 = Some r"
    by (simp add: s2 p1)
  have "\<exists>res. fst (confirmLevel2Request user (ConfirmationRequestLevel2Model None (Some code)) s2)
                 = Inr res
           \<and> isPhoneVerified res = (code \<noteq> [] \<and> code = newCheck env (Suc (nextId s)))" for code
    using confirm_phone_only [OF p2 l, of code] by (auto simp: c2 split: if_splits)
  then show ?thesis
    using ok c2 unfolding s2_def s1_def by blast
qed

lemma validateEmail_twice:
  assumes p: "pendingRequest user ''level-2'' s = Some r" and l: "req_level2 r = Some l2"
    and n: "\<not> l2_isEmailConfirmed l2"
  shows "fst (validateEmail env user (snd (validateEmail env user s)))
           \<noteq> Inl (WebError ''Illegal state'' 401)
     \<and> checksOf user ''confirm-email'' (snd (validateEmail env user (snd (validateEmail env user s))))
         = [\<lparr>chk_id = Suc (nextId s), chk_user = user_id user, chk_type = ''confirm-email'',
             chk_payload = l2_email l2, chk_check = newCheck env (Suc (nextId s))\<rparr>]
     \<and> (\<forall>code. \<exists>res.
           fst (confirmLevel2Request user (ConfirmationRequestLevel2Model (Some code) None)
                  (snd (validateEmail env user (snd (validateEmail env user s))))) = Inr res
           \<and> isEmailVerified res = (code \<noteq> [] \<and> code = newCheck env (Suc (nextId s))))"
proof -
  define s1 where "s1 = snd (validateEmail env user s)"
  define s2 where "s2 = snd (validateEmail env user s1)"
  obtain l1 where s1: "s1 = s\<lparr>checks := otherChecks user ''confirm-email'' s @
          [\<lparr>chk_id = nextId s, chk_user = user_id user, chk_type = ''confirm-email'',
            chk_payload = l2_email l2, chk_check = newCheck env (nextId s)\<rparr>],
       nextId := Suc (nextId s), calls := l1\<rparr>"
    unfolding s1_def by (simp add: validateEmail_issues [OF p l n] Let_def)
  have p1: "pendingRequest user ''level-2'' s1 = Some r"
    by (simp add: s1 p)
  have n1: "nextId s1 = Suc (nextId s)"
    by (simp add: s1)
  note v2 = validateEmail_issues [OF p1 l n, of env]
  have ok: "fst (validateEmail env user s1) \<noteq> Inl (WebError ''Illegal state'' 401)"
    by (simp add: v2 Let_def)
  obtain l2' where s2: "s2 = s1\<lparr>checks := otherChecks user ''confirm-email'' s1 @
          [\<lparr>chk_id = Suc (nextId s), chk_user = user_id user, chk_type = ''confirm-email'',
            chk_payload = l2_email l2, chk_check = newCheck env (Suc (nextId s))\<rparr>],
       nextId := Suc (nextId s1), calls := l2'\<rparr>"
    unfolding s2_def by (simp add: v2 n1 Let_def)
  have c2: "checksOf user ''confirm-email'' s2
         = [\<lparr>chk_id = Suc (nextId s), chk_user = user_id user, chk_type = ''confirm-email'',
             chk_payload = l2_email l2, chk_check = newCheck env (Suc (nextId s))\<rparr>]"
    unfolding s2 by (simp add: checksOf_issued)
  have p2: "pendingRequest user ''level-2'' s2 = Some r"
    by (simp add: s2 p1)
  have "\<exists>res. fst (confirmLevel2Request user (ConfirmationRequestLevel2Model (Some code) None) s2)
                 = Inr res
           \<and> isEmailVerified res = (code \<noteq> [] \<and> code = newCheck env (Suc (nextId s)))" for code
    using confirm_email_only [OF p2 l, of code] by (auto simp: c2 split: if_splits)
  then show ?thesis
    using ok c2 unfolding s2_def s1_def by blast
qed

lemma validatePhone_once:
  assumes p: "pendingRequest user ''level-2'' s = Some r" and l: "req_level2 r = Some l2"
    and n: "\<not> l2_isPhoneConfirmed l2"
  shows "fst (validatePhone env user s) = Inr ()
     \<and> checksOf user ''confirm-phone'' (snd (validatePhone env user s))
         = [\<lparr>chk_id = nextId s, chk_user = user_id user, chk_type = ''confirm-phone'',
             chk_payload = l2_phone l2, chk_check = newCheck env (nextId s)\<rparr>]
     \<and> otherChecks user ''confirm-phone'' (snd (validatePhone env user s))
         = otherChecks user ''confirm-phone'' s
     \<and> made (CheckCreate ''confirm-phone'') (snd (validatePhone env user s))
         = Suc (made (CheckCreate ''confirm-phone'') s)"
  by (simp add: validatePhone_issues [OF p l n] checksOf_issued otherChecks_issued made_def)

lemma validateEmail_once:
  assumes p: "pendingRequest user ''level-2'' s = Some r" and l: "req_level2 r = Some l2"
    and n: "\<not> l2_isEmailConfirmed l2"
  shows "(fst (validateEmail env user s) = Inr () \<or> fst (validateEmail env user s) = Inl SendError)
     \<and> checksOf user ''confirm-email'' (snd (validateEmail env user s))
         = [\<lparr>chk_id = nextId s, chk_user = user_id user, chk_type = ''confirm-email'',
             chk_payload = l2_email l2, chk_check = newCheck env (nextId s)\<rparr>]
     \<and> otherChecks user ''confirm-email'' (snd (validateEmail env user s))
         = otherChecks user ''confirm-email'' s
     \<and> made (CheckCreate ''confirm-email'') (snd (validateEmail env user s))
         = Suc (made (CheckCreate ''confirm-email'') s)"
  by (simp add: validateEmail_issues [OF p l n] checksOf_issued otherChecks_issued made_def
      Let_def)

text \<open>
  C3. \<open>validatePhone\<close> raises "Illegal state" exactly when the account has no "created"
  level-2 request with an unconfirmed phone; on a store whose level-2 requests carry
  their level-2 data that is: no "created" level-2 request, or its phone is confirmed
  already. Otherwise it returns normally, the account's confirm-phone checks are the
  new one alone, with the pending phone as payload, and every other check is kept.
  After two triggers in a row the one confirm-phone check is that of the second, and
  \<open>confirmLevel2Request\<close> verifies a phone code exactly when it is the code of the
  second. \<open>validateEmail\<close> does the same for confirm-email, and then sends the message:
  when it does not raise "Illegal state" it returns normally or fails in the sending,
  with the check issued in both cases.
\<close>

theorem trigger_confirmation:
  "(fst (validatePhone env user s) = Inl (WebError ''Illegal state'' 401))
     = (\<not> (\<exists>r l2. pendingRequest user ''level-2'' s = Some r \<and> req_level2 r = Some l2
               \<and> \<not> l2_isPhoneConfirmed l2))
   \<and> (level2Carried (requests s) \<longrightarrow>
        (fst (validatePhone env user s) = Inl (WebError ''Illegal state'' 401))
          = (pendingRequest user ''level-2'' s = None
             \<or> (\<exists>r l2. pendingRequest user ''level-2'' s = Some r \<and> req_level2 r = Some l2
                   \<and> l2_isPhoneConfirmed l2)))
   \<and> (\<forall>r l2. pendingRequest user ''level-2'' s = Some r \<and> req_level2 r = Some l2
          \<and> \<not> l2_isPhoneConfirmed l2 \<longrightarrow>
        fst (validatePhone env user s) = Inr ()
        \<and> checksOf user ''confirm-phone'' (snd (validatePhone env user s))
            = [\<lparr>chk_id = nextId s, chk_user = user_id user, chk_type = ''confirm-phone'',
                chk_payload = l2_phone l2, chk_check = newCheck env (nextId s)\<rparr>]
        \<and> otherChecks user ''confirm-phone'' (snd (validatePhone env user s))
            = otherChecks user ''confirm-phone'' s
        \<and> made (CheckCreate ''confirm-phone'') (snd (validatePhone env user s))
            = Suc (made (CheckCreate ''confirm-phone'') s)
        \<and> fst (validatePhone env user (snd (validatePhone env user s))) = Inr ()
        \<and> checksOf user ''confirm-phone''
             (snd (validatePhone env user (snd (validatePhone env user s))))
            = [\<lparr>chk_id = Suc (nextId s), chk_user = user_id user, chk_type = ''confirm-phone'',
                chk_payload = l2_phone l2, chk_check = newCheck env (Suc (nextId s))\<rparr>]
        \<and> (\<forall>code. \<exists>res.
              fst (confirmLevel2Request user (ConfirmationRequestLevel2Model None (Some code))
                     (snd (validatePhone env user (snd (validatePhone env user s))))) = Inr res
              \<and> isPhoneVerified res = (code \<noteq> [] \<and> code = newCheck env (Suc (nextId s)))))
   \<and> (fst (validateEmail env user s) = Inl (WebError ''Illegal state'' 401))
     = (\<not> (\<exists>r l2. pendingRequest user ''level-2'' s = Some r \<and> req_level2 r = Some l2
               \<and> \<not> l2_isEmailConfirmed l2))
   \<and> (level2Carried (requests s) \<longrightarrow>
        (fst (validateEmail env user s) = Inl (WebError ''Illegal state'' 401))
          = (pendingRequest user ''level-2'' s = None
             \<or> (\<exists>r l2. pendingRequest user ''level-2'' s = Some r \<and> req_level2 r = Some l2
                   \<and> l2_isEmailConfirmed l2)))
   \<and> (\<forall>r l2. pendingRequest user ''level-2'' s = Some r \<and> req_level2 r = Some l2
          \<and> \<not> l2_isEmailConfirmed l2 \<longrightarrow>
        (fst (validateEmail env user s) = Inr () \<or> fst (validateEmail env user s) = Inl SendError)
        \<and> checksOf user ''confirm-email'' (snd (validateEmail env user s))
            = [\<lparr>chk_id = nextId s, chk_user = user_id user, chk_type = ''confirm-email'',
                chk_payload = l2_email l2, chk_check = newCheck env (nextId s)\<rparr>]
        \<and> otherChecks user ''confirm-email'' (snd (validateEmail env user s))
            = otherChecks user ''confirm-email'' s
        \<and> made (CheckCreate ''confirm-email'') (snd (validateEmail env user s))
            = Suc (made (CheckCreate ''confirm-email'') s)
        \<and> fst (validateEmail env user (snd (validateEmail env user s)))
            \<noteq> Inl (WebError ''Illegal state'' 401)
        \<and> checksOf user ''confirm-email''
             (snd (validateEmail env user (snd (validateEmail env user s))))
            = [\<lparr>chk_id = Suc (nextId s), chk_user = user_id user, chk_type = ''confirm-email'',
                chk_payload = l2_email l2, chk_check = newCheck env (Suc (nextId s))\<rparr>]
        \<and> (\<forall>code. \<exists>res.
              fst (confirmLevel2Request user (ConfirmationRequestLevel2Model (Some code) None)
                     (snd (validateEmail env user (snd (validateEmail env user s))))) = Inr res
              \<and> isEmailVerified res = (code \<noteq> [] \<and> code = newCheck env (Suc (nextId s)))))"
  (is "?A \<and> ?B \<and> (\<forall>r l2. ?P r l2 \<longrightarrow> ?Q r l2) \<and> ?D \<and> ?E \<and> (\<forall>r l2. ?P' r l2 \<longrightarrow> ?Q' r l2)")
proof -
  have a: ?A
    by (rule validatePhone_IllegalState_iff)
  have b: ?B
    unfolding validatePhone_IllegalState_iff
    using level2Carried_pending [of s user]
    by (cases "pendingRequest user ''level-2'' s") auto
  have c: "?Q r l2" if "?P r l2" for r l2
  proof -
    from that have p: "pendingRequest user ''level-2'' s = Some r"
      and l: "req_level2 r = Some l2" and n: "\<not> l2_isPhoneConfirmed l2"
      by simp_all
    from validatePhone_once [OF p l n, of env] validatePhone_twice [OF p l n, of env]
    show ?thesis
      by (simp only: conj_assoc simp_thms)
  qed
  have d: ?D
    by (rule validateEmail_IllegalState_iff)
  have e: ?E
    unfolding validateEmail_IllegalState_iff
    using level2Carried_pending [of s user]
    by (cases "pendingRequest user ''level-2'' s") auto
  have f: "?Q' r l2" if "?P' r l2" for r l2
  proof -
    from that have p: "pendingRequest user ''level-2'' s = Some r"
      and l: "req_level2 r = Some l2" and n: "\<not> l2_isEmailConfirmed l2"
      by simp_all
    from validateEmail_once [OF p l n, of env] validateEmail_twice [OF p l n, of env]
    show ?thesis
      by (simp only: conj_assoc simp_thms)
  qed
  have c': "\<forall>r l2. ?P r l2 \<longrightarrow> ?Q r l2"
  proof (intro allI impI)
    fix r l2 assume "?P r l2"
    then show "?Q r l2" by (rule c)
  qed
  have f': "\<forall>r l2. ?P' r l2 \<longrightarrow> ?Q' r l2"
  proof (intro allI impI)
    fix r l2 assume "?P' r l2"
    then show "?Q' r l2" by (rule f)
  qed
  from a b c' d e f' show ?thesis
    by (intro conjI)
qed

theorem trigger_confirmation_witness:
  "level2Carried (requests store2)
   \<and> pendingRequest alice ''level-2'' store2 = Some aliceRequest
   \<and> req_level2 aliceRequest = Some level2Data
   \<and> \<not> l2_isPhoneConfirmed level2Data \<and> \<not> l2_isEmailConfirmed level2Data
   \<and> fst (validatePhone env0 alice store2) = Inr ()
   \<and> fst (validatePhone env0 alice store2) \<noteq> Inl (WebError ''Illegal state'' 401)
   \<and> checksOf alice ''confirm-phone'' (snd (validatePhone env0 alice store2))
       = [\<lparr>chk_id = 7, chk_user = 0, chk_type = ''confirm-phone'', chk_payload = ''+1000'',
           chk_check = ''2222''\<rparr>]
   \<and> checksOf alice ''confirm-email'' (snd (validateEmail env0 alice store2))
       = [\<lparr>chk_id = 7, chk_user = 0, chk_type = ''confirm-email'', chk_payload = ''b@x.com'',
           chk_check = ''2222''\<rparr>]"
proof -
  have c: "level2Carried (requests store2)"
    by (simp add: level2Carried_def store2_def aliceRequest_def)
  have n: "\<not> l2_isPhoneConfirmed level2Data" "\<not> l2_isEmailConfirmed level2Data"
    by (simp_all add: level2Data_def)
  have v: "nextId store2 = 7" "user_id alice = 0" "l2_phone level2Data = ''+1000''"
    "l2_email level2Data = ''b@x.com''" "newCheck env0 7 = ''2222''"
    by (simp_all add: store2_def alice_def level2Data_def env0_def)
  note t = trigger_confirmation [of env0 alice store2]
  from t c store2_pending aliceRequest_level2 n
  have 1: "fst (validatePhone env0 alice store2) = Inr ()"
    and 2: "checksOf alice ''confirm-phone'' (snd (validatePhone env0 alice store2))
             = [\<lparr>chk_id = nextId store2, chk_user = user_id alice, chk_type = ''confirm-phone'',
                 chk_payload = l2_phone level2Data, chk_check = newCheck env0 (nextId store2)\<rparr>]"
    and 3: "checksOf alice ''confirm-email'' (snd (validateEmail env0 alice store2))
             = [\<lparr>chk_id = nextId store2, chk_user = user_id alice, chk_type = ''confirm-email'',
                 chk_payload = l2_email level2Data, chk_check = newCheck env0 (nextId store2)\<rparr>]"
    by blast+
  show ?thesis
    using c store2_pending aliceRequest_level2 n 1 2 3 by (simp add: v)
qed

text \<open>
  C2. \<open>upsertLevel2Request\<close> on a pending "created" request keeps \<open>isEmailConfirmed\<close>
  when the submitted email is the one on that request and sets it to false otherwise;
  with no pending request the new request has \<open>isEmailConfirmed\<close> exactly when the
  submitted email is the account's own \<open>level2.email\<close>. The same holds for the phone.
  The flags are those of the stored request, whatever the triggers that follow do.
\<close>

theorem upsertLevel2Request_flags:
  "(\<forall>r old. pendingRequest user ''level-2'' s = Some r \<and> req_level2 r = Some old \<longrightarrow>
      (\<exists>new. pendingRequest user ''level-2''
                (snd (upsertLevel2Request env user (VerificationRequestLevel2Model email phone) s))
               = Some (r\<lparr>req_level2 := Some new\<rparr>)
         \<and> l2_email new = email \<and> l2_phone new = phone
         \<and> l2_isEmailConfirmed new
             = (if email = l2_email old then l2_isEmailConfirmed old else False)
         \<and> l2_isPhoneConfirmed new
             = (if phone = l2_phone old then l2_isPhoneConfirmed old else False)))
   \<and> (\<forall>contact. pendingRequest user ''level-2'' s = None \<and> user_level2 user = Some contact \<longrightarrow>
      (\<exists>r' new. requests
                   (snd (upsertLevel2Request env user (VerificationRequestLevel2Model email phone) s))
                  = requests s @ [r']
         \<and> req_user r' = user_id user \<and> req_level r' = ''level-2''
         \<and> req_level2 r' = Some new
         \<and> l2_email new = email \<and> l2_phone new = phone
         \<and> l2_isEmailConfirmed new = (Some email = contact_email contact)
         \<and> l2_isPhoneConfirmed new = (Some phone = contact_phone contact)))"
proof (intro conjI allI impI; elim conjE)
  fix r old
  assume p: "pendingRequest user ''level-2'' s = Some r" and l: "req_level2 r = Some old"
  let ?new = "\<lparr>l2_email = email, l2_phone = phone,
                 l2_isEmailConfirmed = (email = l2_email old \<and> l2_isEmailConfirmed old),
                 l2_isPhoneConfirmed = (phone = l2_phone old \<and> l2_isPhoneConfirmed old),
                 l2_validationComment = None, l2_isValid = False\<rparr>"
  have "pendingRequest user ''level-2''
          (requestSave (r\<lparr>req_level2 := Some ?new\<rparr>) (called (RequestFindOne ''level-2'') s))
        = Some (r\<lparr>req_level2 := Some ?new\<rparr>)"
    by (rule pendingRequest_requestSave) (simp_all add: p)
  then have "pendingRequest user ''level-2''
                (snd (upsertLevel2Request env user (VerificationRequestLevel2Model email phone) s))
               = Some (r\<lparr>req_level2 := Some ?new\<rparr>)"
    by (simp add: pendingRequest_find requests_upsertLevel2Request upsertLevel2_found [OF p l]
        Let_def)
  then show "\<exists>new. pendingRequest user ''level-2''
                (snd (upsertLevel2Request env user (VerificationRequestLevel2Model email phone) s))
               = Some (r\<lparr>req_level2 := Some new\<rparr>)
         \<and> l2_email new = email \<and> l2_phone new = phone
         \<and> l2_isEmailConfirmed new
             = (if email = l2_email old then l2_isEmailConfirmed old else False)
         \<and> l2_isPhoneConfirmed new
             = (if phone = l2_phone old then l2_isPhoneConfirmed old else False)"
    by (intro exI [of _ ?new]) simp
next
  fix contact
  assume p: "pendingRequest user ''level-2'' s = None" and c: "user_level2 user = Some contact"
  show "\<exists>r' new. requests
                   (snd (upsertLevel2Request env user (VerificationRequestLevel2Model email phone) s))
                  = requests s @ [r']
         \<and> req_user r' = user_id user \<and> req_level r' = ''level-2''
         \<and> req_level2 r' = Some new
         \<and> l2_email new = email \<and> l2_phone new = phone
         \<and> l2_isEmailConfirmed new = (Some email = contact_email contact)
         \<and> l2_isPhoneConfirmed new = (Some phone = contact_phone contact)"
    by (simp add: requests_upsertLevel2Request upsertLevel2_new [OF p c] Let_def)
qed







lemma store3_pending: "pendingRequest alice ''level-2'' store3 = Some confirmedRequest"
  by (simp add: pendingRequest_find store3_def confirmedRequest_def aliceRequest_def alice_def)

lemma confirmedRequest_level2:
  "req_level2 confirmedRequest = Some (level2Data\<lparr>l2_isEmailConfirmed := True\<rparr>)"
  by (simp add: confirmedRequest_def)

lemma store0_pending: "pendingRequest alice ''level-2'' store0 = None"
  by (simp add: pendingRequest_find store0_def)

lemma alice_level2:
  "user_level2 alice = Some \<lparr>contact_email = Some ''a@x.com'', contact_phone = None\<rparr>"
  by (simp add: alice_def)

theorem upsertLevel2Request_flags_witness:
  "pendingRequest alice ''level-2'' store3 = Some confirmedRequest
   \<and> req_level2 confirmedRequest = Some (level2Data\<lparr>l2_isEmailConfirmed := True\<rparr>)
   \<and> (\<exists>new. pendingRequest alice ''level-2''
               (snd (upsertLevel2Request env0 alice
                       (VerificationRequestLevel2Model ''b@x.com'' ''+2000'') store3))
              = Some (confirmedRequest\<lparr>req_level2 := Some new\<rparr>)
          \<and> l2_isEmailConfirmed new \<and> \<not> l2_isPhoneConfirmed new)
   \<and> pendingRequest alice ''level-2'' store0 = None
   \<and> user_level2 alice = Some \<lparr>contact_email = Some ''a@x.com'', contact_phone = None\<rparr>
   \<and> (\<exists>r' new. requests
                  (snd (upsertLevel2Request env0 alice
                          (VerificationRequestLevel2Model ''a@x.com'' ''+1000'') store0))
                 = requests store0 @ [r']
          \<and> req_level2 r' = Some new \<and> l2_isEmailConfirmed new \<and> \<not> l2_isPhoneConfirmed new)"
proof -
  note a = upsertLevel2Request_flags
    [where user = alice and s = store3 and env = env0 and email = "''b@x.com''"
       and phone = "''+2000''"]
  note b = upsertLevel2Request_flags
    [where user = alice and s = store0 and env = env0 and email = "''a@x.com''"
       and phone = "''+1000''"]
  from a store3_pending confirmedRequest_level2 obtain new where
    1: "pendingRequest alice ''level-2''
               (snd (upsertLevel2Request env0 alice
                       (VerificationRequestLevel2Model ''b@x.com'' ''+2000'') store3))
              = Some (confirmedRequest\<lparr>req_level2 := Some new\<rparr>)"
    and "l2_isEmailConfirmed new
          = (if ''b@x.com'' = l2_email (level2Data\<lparr>l2_isEmailConfirmed := True\<rparr>)
             then l2_isEmailConfirmed (level2Data\<lparr>l2_isEmailConfirmed := True\<rparr>) else False)"
    and "l2_isPhoneConfirmed new
          = (if ''+2000'' = l2_phone (level2Data\<lparr>l2_isEmailConfirmed := True\<rparr>)
             then l2_isPhoneConfirmed (level2Data\<lparr>l2_isEmailConfirmed := True\<rparr>) else False)"
    by blast
  then have 2: "l2_isEmailConfirmed new" "\<not> l2_isPhoneConfirmed new"
    by (simp_all add: level2Data_def)
  from b store0_pending alice_level2 obtain r' new' where
    3: "requests (snd (upsertLevel2Request env0 alice
                          (VerificationRequestLevel2Model ''a@x.com'' ''+1000'') store0))
         = requests store0 @ [r']" "req_level2 r' = Some new'"
    and "l2_isEmailConfirmed new'
          = (Some ''a@x.com'' = contact_email \<lparr>contact_email = Some ''a@x.com'', contact_phone = None\<rparr>)"
    and "l2_isPhoneConfirmed new'
          = (Some ''+1000'' = contact_phone \<lparr>contact_email = Some ''a@x.com'', contact_phone = None\<rparr>)"
    by blast
  then have 4: "l2_isEmailConfirmed new'" "\<not> l2_isPhoneConfirmed new'"
    by simp_all
  show ?thesis
    using store3_pending confirmedRequest_level2 store0_pending alice_level2 1 2 3 4 by blast
qed


theorem submit_keeps_one_created_witness:
  "fresh_ids req_id (requests store0) (nextId store0) \<and> oneCreated (requests store0)
   \<and> pendingRequest alice ''level-1'' store0 = None
   \<and> pendingRequest alice ''level-2'' store0 = None
   \<and> pendingRequest alice ''level-3'' store0 = None
   \<and> pendingRequest alice ''level-4'' store0 = None
   \<and> user_level2 alice = Some \<lparr>contact_email = Some ''a@x.com'', contact_phone = None\<rparr>
   \<and> upserted alice ''level-3'' store0
        (upsertLevel3Request env0 alice
           (VerificationRequestLevel3Model ''P123'' ''2030-01-01'' [''scan-1'']) store0)
   \<and> fst (upsertLevel1Request env0 alice
             (VerificationRequestLevel1Model ''Alice'' ''1990-01-01'' ''avatar-1'') store0) = Inr ()
   \<and> requests (snd (upsertLevel1Request env0 alice
             (VerificationRequestLevel1Model ''Alice'' ''1990-01-01'' ''avatar-1'') store0))
       = [\<lparr>req_id = 3, req_user = 0, req_level = ''level-1'', req_status = ''created'',
           req_level1 = Some \<lparr>l1_userName = ''Alice'', l1_birthDate = ''1990-01-01'',
                              l1_avatar = ''avatar-1'', l1_validationComment = None,
                              l1_isValid = False\<rparr>,
           req_level2 = None, req_level3 = None, req_level4 = None\<rparr>]
   \<and> requests (snd (upsertLevel2Request env0 alice
             (VerificationRequestLevel2Model ''a@x.com'' ''+1000'') store0))
       = [\<lparr>req_id = 3, req_user = 0, req_level = ''level-2'', req_status = ''created'',
           req_level1 = None,
           req_level2 = Some \<lparr>l2_email = ''a@x.com'', l2_phone = ''+1000'',
                              l2_isEmailConfirmed = True, l2_isPhoneConfirmed = False,
                              l2_validationComment = None, l2_isValid = False\<rparr>,
           req_level3 = None, req_level4 = None\<rparr>]
   \<and> fst (upsertLevel3Request env0 alice
             (VerificationRequestLevel3Model ''P123'' ''2030-01-01'' [''scan-1'']) store0) = Inr ()
   \<and> requests (snd (upsertLevel3Request env0 alice
             (VerificationRequestLevel3Model ''P123'' ''2030-01-01'' [''scan-1'']) store0))
       = [\<lparr>req_id = 3, req_user = 0, req_level = ''level-3'', req_status = ''created'',
           req_level1 = None, req_level2 = None,
           req_level3 = Some \<lparr>l3_passport = ''P123'', l3_expirationDate = ''2030-01-01'',
                              l3_attachments = [''scan-1'']\<rparr>,
           req_level4 = None\<rparr>]
   \<and> fst (upsertLevel4Request env0 alice
             (VerificationRequestLevel4Model ''NL'' ''NH'' ''Amsterdam'' ''1011'' ''Dam 1''
                ''floor 2'' [''bill-1'']) store0) = Inr ()
   \<and> requests (snd (upsertLevel4Request env0 alice
             (VerificationRequestLevel4Model ''NL'' ''NH'' ''Amsterdam'' ''1011'' ''Dam 1''
                ''floor 2'' [''bill-1'']) store0))
       = [\<lparr>req_id = 3, req_user = 0, req_level = ''level-4'', req_status = ''created'',
           req_level1 = None, req_level2 = None, req_level3 = None,
           req_level4 = Some \<lparr>l4_country = ''NL'', l4_state = ''NH'', l4_city = ''Amsterdam'',
                              l4_zip = ''1011'', l4_addressLine1 = ''Dam 1'',
                              l4_addressLine2 = ''floor 2'', l4_attachments = [''bill-1'']\<rparr>\<rparr>]
   \<and> fresh_ids req_id (requests store1) (nextId store1) \<and> oneCreated (requests store1)
   \<and> pendingRequest alice ''level-1'' store1
       = Some \<lparr>req_id = 3, req_user = 0, req_level = ''level-1'', req_status = ''created'',
           req_level1 = Some \<lparr>l1_userName = ''Alice'', l1_birthDate = ''1990-01-01'',
                              l1_avatar = ''avatar-1'', l1_validationComment = None,
                              l1_isValid = False\<rparr>,
           req_level2 = None, req_level3 = None, req_level4 = None\<rparr>
   \<and> requests (snd (upsertLevel1Request env0 alice
             (VerificationRequestLevel1Model ''Al'' ''1990-02-02'' ''avatar-2'') store1))
       = [\<lparr>req_id = 3, req_user = 0, req_level = ''level-1'', req_status = ''created'',
           req_level1 = Some \<lparr>l1_userName = ''Al'', l1_birthDate = ''1990-02-02'',
                              l1_avatar = ''avatar-2'', l1_validationComment = None,
                              l1_isValid = False\<rparr>,
           req_level2 = None, req_level3 = None, req_level4 = None\<rparr>]
   \<and> fresh_ids req_id (requests store3) (nextId store3) \<and> oneCreated (requests store3)
   \<and> pendingRequest alice ''level-2'' store3 = Some confirmedRequest
   \<and> req_level2 confirmedRequest = Some (level2Data\<lparr>l2_isEmailConfirmed := True\<rparr>)
   \<and> requests (snd (upsertLevel2Request env0 alice
             (VerificationRequestLevel2Model ''b@x.com'' ''+2000'') store3))
       = [\<lparr>req_id = 4, req_user = 0, req_level = ''level-2'', req_status = ''created'',
           req_level1 = None,
           req_level2 = Some \<lparr>l2_email = ''b@x.com'', l2_phone = ''+2000'',
                              l2_isEmailConfirmed = True, l2_isPhoneConfirmed = False,
                              l2_validationComment = None, l2_isValid = False\<rparr>,
           req_level3 = None, req_level4 = None\<rparr>]"
proof -
  have h0: "fresh_ids req_id (requests store0) (nextId store0)" "oneCreated (requests store0)"
    by (simp_all add: store0_def fresh_ids_def oneCreated_def)
  have p0: "pendingRequest alice ''level-1'' store0 = None"
    "pendingRequest alice ''level-2'' store0 = None"
    "pendingRequest alice ''level-3'' store0 = None"
    "pendingRequest alice ''level-4'' store0 = None"
    by (simp_all add: pendingRequest_find store0_def)
  have v0: "requests store0 = []" "nextId store0 = 3" "user_id alice = 0"
    "defaultStatus env0 = ''created''" "defaultComment env0 = None" "\<not> defaultIsValid env0"
    by (simp_all add: store0_def alice_def env0_def)
  note t0 = submit_keeps_one_created [OF h0, where user = alice and env = env0
      and m = "VerificationRequestLevel3Model ''P123'' ''2030-01-01'' [''scan-1'']"
      and userName = "''Alice''" and birthDate = "''1990-01-01''" and avatar = "''avatar-1''"
      and email = "''a@x.com''" and phone = "''+1000''"
      and passport = "''P123''" and expirationDate = "''2030-01-01''"
      and attachments = "[''scan-1'']"
      and country = "''NL''" and state = "''NH''" and city = "''Amsterdam''"
      and zipCode = "''1011''" and addressLineA = "''Dam 1''" and addressLineB = "''floor 2''"
      and documents = "[''bill-1'']"]
  note g0 = t0 [THEN conjunct1]
    and g1 = t0 [THEN conjunct2, THEN conjunct1]
    and g2 = t0 [THEN conjunct2, THEN conjunct2, THEN conjunct1]
    and g3 = t0 [THEN conjunct2, THEN conjunct2, THEN conjunct2, THEN conjunct1]
    and g4 = t0 [THEN conjunct2, THEN conjunct2, THEN conjunct2, THEN conjunct2]
  have c0: "upserted alice ''level-3'' store0
        (upsertLevel3Request env0 alice
           (VerificationRequestLevel3Model ''P123'' ''2030-01-01'' [''scan-1'']) store0)"
    by (rule g0 [THEN conjunct2, THEN conjunct2, THEN conjunct1])
  have c1: "fst (upsertLevel1Request env0 alice
             (VerificationRequestLevel1Model ''Alice'' ''1990-01-01'' ''avatar-1'') store0) = Inr ()"
    "fst (upsertLevel3Request env0 alice
             (VerificationRequestLevel3Model ''P123'' ''2030-01-01'' [''scan-1'']) store0) = Inr ()"
    "fst (upsertLevel4Request env0 alice
             (VerificationRequestLevel4Model ''NL'' ''NH'' ''Amsterdam'' ''1011'' ''Dam 1''
                ''floor 2'' [''bill-1'']) store0) = Inr ()"
    by (rule g1 [THEN conjunct1], rule g3 [THEN conjunct1], rule g4 [THEN conjunct1])
  have c2: "requests (snd (upsertLevel1Request env0 alice
             (VerificationRequestLevel1Model ''Alice'' ''1990-01-01'' ''avatar-1'') store0))
       = [\<lparr>req_id = 3, req_user = 0, req_level = ''level-1'', req_status = ''created'',
           req_level1 = Some \<lparr>l1_userName = ''Alice'', l1_birthDate = ''1990-01-01'',
                              l1_avatar = ''avatar-1'', l1_validationComment = None,
                              l1_isValid = False\<rparr>,
           req_level2 = None, req_level3 = None, req_level4 = None\<rparr>]"
    using g1 p0 by (simp add: v0)
  have c3: "requests (snd (upsertLevel2Request env0 alice
             (VerificationRequestLevel2Model ''a@x.com'' ''+1000'') store0))
       = [\<lparr>req_id = 3, req_user = 0, req_level = ''level-2'', req_status = ''created'',
           req_level1 = None,
           req_level2 = Some \<lparr>l2_email = ''a@x.com'', l2_phone = ''+1000'',
                              l2_isEmailConfirmed = True, l2_isPhoneConfirmed = False,
                              l2_validationComment = None, l2_isValid = False\<rparr>,
           req_level3 = None, req_level4 = None\<rparr>]"
    using g2 p0 alice_level2 by (simp add: v0)
  have c4: "requests (snd (upsertLevel3Request env0 alice
             (VerificationRequestLevel3Model ''P123'' ''2030-01-01'' [''scan-1'']) store0))
       = [\<lparr>req_id = 3, req_user = 0, req_level = ''level-3'', req_status = ''created'',
           req_level1 = None, req_level2 = None,
           req_level3 = Some \<lparr>l3_passport = ''P123'', l3_expirationDate = ''2030-01-01'',
                              l3_attachments = [''scan-1'']\<rparr>,
           req_level4 = None\<rparr>]"
    using g3 p0 by (simp add: v0)
  have c5: "requests (snd (upsertLevel4Request env0 alice
             (VerificationRequestLevel4Model ''NL'' ''NH'' ''Amsterdam'' ''1011'' ''Dam 1''
                ''floor 2'' [''bill-1'']) store0))
       = [\<lparr>req_id = 3, req_user = 0, req_level = ''level-4'', req_status = ''created'',
           req_level1 = None, req_level2 = None, req_level3 = None,
           req_level4 = Some \<lparr>l4_country = ''NL'', l4_state = ''NH'', l4_city = ''Amsterdam'',
                              l4_zip = ''1011'', l4_addressLine1 = ''Dam 1'',
                              l4_addressLine2 = ''floor 2'', l4_attachments = [''bill-1'']\<rparr>\<rparr>]"
    using g4 p0 by (simp add: v0)
  have h1: "fresh_ids req_id (requests store1) (nextId store1)" "oneCreated (requests store1)"
    by (simp_all add: store1_eq fresh_ids_def oneCreated_def)
  have p1: "pendingRequest alice ''level-1'' store1
       = Some \<lparr>req_id = 3, req_user = 0, req_level = ''level-1'', req_status = ''created'',
           req_level1 = Some \<lparr>l1_userName = ''Alice'', l1_birthDate = ''1990-01-01'',
                              l1_avatar = ''avatar-1'', l1_validationComment = None,
                              l1_isValid = False\<rparr>,
           req_level2 = None, req_level3 = None, req_level4 = None\<rparr>"
    by (simp add: pendingRequest_find store1_eq alice_def)
  have v1: "requests store1
       = [\<lparr>req_id = 3, req_user = 0, req_level = ''level-1'', req_status = ''created'',
           req_level1 = Some \<lparr>l1_userName = ''Alice'', l1_birthDate = ''1990-01-01'',
                              l1_avatar = ''avatar-1'', l1_validationComment = None,
                              l1_isValid = False\<rparr>,
           req_level2 = None, req_level3 = None, req_level4 = None\<rparr>]"
    by (simp add: store1_eq)
  note t1 = submit_keeps_one_created [OF h1, where user = alice and env = env0
      and userName = "''Al''" and birthDate = "''1990-02-02''" and avatar = "''avatar-2''"]
  have c6: "requests (snd (upsertLevel1Request env0 alice
             (VerificationRequestLevel1Model ''Al'' ''1990-02-02'' ''avatar-2'') store1))
       = [\<lparr>req_id = 3, req_user = 0, req_level = ''level-1'', req_status = ''created'',
           req_level1 = Some \<lparr>l1_userName = ''Al'', l1_birthDate = ''1990-02-02'',
                              l1_avatar = ''avatar-2'', l1_validationComment = None,
                              l1_isValid = False\<rparr>,
           req_level2 = None, req_level3 = None, req_level4 = None\<rparr>]"
    using t1 [THEN conjunct2, THEN conjunct1] p1 by (simp add: v1)
  have h3: "fresh_ids req_id (requests store3) (nextId store3)" "oneCreated (requests store3)"
    by (simp_all add: store3_def confirmedRequest_def aliceRequest_def fresh_ids_def
        oneCreated_def)
  have v3: "requests store3 = [confirmedRequest]"
    by (simp add: store3_def)
  note t3 = submit_keeps_one_created [OF h3, where user = alice and env = env0
      and email = "''b@x.com''" and phone = "''+2000''"]
  have "requests (snd (upsertLevel2Request env0 alice
             (VerificationRequestLevel2Model ''b@x.com'' ''+2000'') store3))
       = [confirmedRequest\<lparr>req_level2 := Some
             \<lparr>l2_email = ''b@x.com'', l2_phone = ''+2000'',
              l2_isEmailConfirmed =
                (''b@x.com'' = l2_email (level2Data\<lparr>l2_isEmailConfirmed := True\<rparr>)
                 \<and> l2_isEmailConfirmed (level2Data\<lparr>l2_isEmailConfirmed := True\<rparr>)),
              l2_isPhoneConfirmed =
                (''+2000'' = l2_phone (level2Data\<lparr>l2_isEmailConfirmed := True\<rparr>)
                 \<and> l2_isPhoneConfirmed (level2Data\<lparr>l2_isEmailConfirmed := True\<rparr>)),
              l2_validationComment = None, l2_isValid = False\<rparr>\<rparr>]"
    using t3 [THEN conjunct2, THEN conjunct2, THEN conjunct1] store3_pending
      confirmedRequest_level2
    by (simp add: v3)
  then have c7: "requests (snd (upsertLevel2Request env0 alice
             (VerificationRequestLevel2Model ''b@x.com'' ''+2000'') store3))
       = [\<lparr>req_id = 4, req_user = 0, req_level = ''level-2'', req_status = ''created'',
           req_level1 = None,
           req_level2 = Some \<lparr>l2_email = ''b@x.com'', l2_phone = ''+2000'',
                              l2_isEmailConfirmed = True, l2_isPhoneConfirmed = False,
                              l2_validationComment = None, l2_isValid = False\<rparr>,
           req_level3 = None, req_level4 = None\<rparr>]"
    by (simp add: confirmedRequest_def aliceRequest_def level2Data_def)
  show ?thesis
    using h0 p0 alice_level2 c0 c1 c2 c3 c4 c5 h1 p1 c6 h3 store3_pending
      confirmedRequest_level2 c7
    by (intro conjI)
qed

end
